theory Spec2Isabelle
  imports Complex_Main "HOL-Library.Sublist"
begin

section \<open>Values, errors and string helpers\<close>

text \<open>
  The workflow graphs handled by the services are Python dictionaries decoded from JSON.
  Free-form content (parameter bags, credential references, settings) is a \<open>json\<close> value;
  a dictionary is an association list and \<open>map_of\<close> is the lookup.
\<close>

datatype json =
    JNull
  | JBool bool
  | JInt int
  | JStr string
  | JList "json list"
  | JObj "(string \<times> json) list"

text \<open>The exceptions the modelled code can raise.\<close>

datatype py_error =
    KeyError string
  | IndexError
  | AttributeError
  | TypeError

text \<open>\<open>key in d\<close> for a dictionary \<open>d\<close>.\<close>

definition has_key :: "string \<Rightarrow> (string \<times> 'v) list \<Rightarrow> bool" where
  "has_key k d = (map_of d k \<noteq> None)"

text \<open>\<open>str(n)\<close> for an integer.\<close>

fun str_nat :: "nat \<Rightarrow> string" where
  "str_nat n =
     (if n < 10 then [''0123456789'' ! n]
      else str_nat (n div 10) @ [''0123456789'' ! (n mod 10)])"

declare str_nat.simps [simp del]

definition str_int :: "int \<Rightarrow> string" where
  "str_int i = (if i < 0 then CHR ''-'' # str_nat (nat (- i)) else str_nat (nat i))"

text \<open>\<open>s.endswith(suf)\<close>, \<open>s.startswith(pre)\<close>, \<open>sub in s\<close> and \<open>sep.join(xs)\<close>.\<close>

definition endswith :: "string \<Rightarrow> string \<Rightarrow> bool" where
  "endswith s suf = (length suf \<le> length s \<and> drop (length s - length suf) s = suf)"

definition startswith :: "string \<Rightarrow> string \<Rightarrow> bool" where
  "startswith s pre = (take (length pre) s = pre)"

fun contains :: "string \<Rightarrow> string \<Rightarrow> bool" where
  "contains sub [] = (sub = [])"
| "contains sub (c # cs) = (startswith (c # cs) sub \<or> contains sub cs)"

fun join :: "string \<Rightarrow> string list \<Rightarrow> string" where
  "join sep [] = []"
| "join sep [x] = x"
| "join sep (x # y # ys) = x @ sep @ join sep (y # ys)"

section \<open>Workflow graphs as dictionaries\<close>

text \<open>
  A node of a candidate graph is a dictionary in which every key may be absent; a field
  is \<open>None\<close> when the key is missing. Values that are present have the type the services
  expect of them. The keys of a graph that no service reads are kept in \<open>w_other\<close>.
\<close>

record node =
  n_id :: "string option"
  n_name :: "string option"
  n_type :: "string option"
  n_typeVersion :: "int option"
  n_position :: "int list option"
  n_parameters :: "(string \<times> json) list option"
  n_credentials :: "(string \<times> json) list option"
  n_onError :: "string option"
  n_retryOnFail :: "bool option"
  n_continueOnFail :: "bool option"
  n_maxTries :: "int option"
  n_webhookId :: "string option"

text \<open>One entry of a connection list: \<open>{"node": ..., "type": ..., "index": ...}\<close>.\<close>

record conn =
  c_node :: string
  c_type :: string
  c_index :: int

type_synonym connections = "(string \<times> (string \<times> conn list list) list) list"

record workflow =
  w_name :: "string option"
  w_nodes :: "node list option"
  w_connections :: "connections option"
  w_active :: "bool option"
  w_settings :: "(string \<times> json) list option"
  w_meta :: "(string \<times> json) list option"
  w_other :: "(string \<times> json) list"

text \<open>\<open>workflow.get('nodes', [])\<close> and \<open>node.get('type', '')\<close>.\<close>

definition get_nodes :: "workflow \<Rightarrow> node list" where
  "get_nodes w = (case w_nodes w of None \<Rightarrow> [] | Some ns \<Rightarrow> ns)"

definition get_type :: "node \<Rightarrow> string" where
  "get_type n = (case n_type n of None \<Rightarrow> [] | Some t \<Rightarrow> t)"

abbreviation stickyNote :: string where
  "stickyNote \<equiv> ''n8n-nodes-base.stickyNote''"

section \<open>Node Type Registry (node_schemas.py)\<close>

text \<open>
  A schema of the registry. The \<open>typical_config\<close> entries, which only
  \<open>get_typical_config\<close> reads, are left out. A key that an entry does not have is \<open>None\<close>.
\<close>

record schema =
  required :: "string list"
  optional :: "string list"
  requires_credentials :: bool
  credential_type :: "string option"
  error_handling_recommended :: "bool option"

definition mk_schema ::
  "string list \<Rightarrow> string list \<Rightarrow> bool \<Rightarrow> string option \<Rightarrow> bool option \<Rightarrow> schema" where
  "mk_schema r opt rc ct eh =
     \<lparr>required = r, optional = opt, requires_credentials = rc, credential_type = ct,
      error_handling_recommended = eh\<rparr>"

definition schemas :: "(string \<times> schema) list" where
  "schemas =
    [(''n8n-nodes-base.httpRequest'',
        mk_schema [''method'', ''url'']
          [''authentication'', ''options'', ''bodyParametersJson'', ''headerParametersJson'']
          False None (Some True)),
     (''@blotato/n8n-nodes-blotato.blotato'',
        mk_schema [''resource''] [''operation'', ''mediaUrl'', ''caption'', ''platform'']
          True (Some ''blotatoApi'') (Some True)),
     (''n8n-nodes-base.openAi'',
        mk_schema [''resource'', ''operation''] [''options'', ''prompt'', ''model'']
          True (Some ''openAiApi'') None),
     (''@n8n/n8n-nodes-langchain.agent'',
        mk_schema [''promptType''] [''text'', ''options''] False None (Some False)),
     (''@n8n/n8n-nodes-langchain.chatOpenAi'',
        mk_schema [] [''model'', ''temperature'', ''maxTokens''] True (Some ''openAiApi'') None),
     (''n8n-nodes-base.if'', mk_schema [''conditions''] [''options''] False None None),
     (''n8n-nodes-base.switch'', mk_schema [''mode''] [''rules'', ''output''] False None None),
     (''n8n-nodes-base.merge'', mk_schema [] [''mode'', ''options''] False None None),
     (''n8n-nodes-base.set'', mk_schema [] [''values'', ''options''] False None None),
     (''n8n-nodes-base.code'', mk_schema [''mode''] [''jsCode'', ''pythonCode''] False None None),
     (''n8n-nodes-base.function'', mk_schema [''functionCode''] [] False None None),
     (''n8n-nodes-base.googleSheets'',
        mk_schema [''resource'', ''operation''] [''sheetId'', ''range'', ''documentId'']
          True (Some ''googleSheetsOAuth2Api'') (Some True)),
     (''n8n-nodes-base.gmail'',
        mk_schema [''resource'', ''operation''] [''sendTo'', ''subject'', ''message'']
          True (Some ''gmailOAuth2'') (Some True)),
     (''n8n-nodes-base.slack'',
        mk_schema [''resource'', ''operation''] [''channel'', ''text'', ''username'']
          True (Some ''slackApi'') (Some True)),
     (''n8n-nodes-base.postgres'',
        mk_schema [''operation''] [''table'', ''query'', ''columns'']
          True (Some ''postgres'') (Some True)),
     (''n8n-nodes-base.mysql'',
        mk_schema [''operation''] [''table'', ''query'', ''columns'']
          True (Some ''mySql'') (Some True)),
     (''n8n-nodes-base.webhook'',
        mk_schema [] [''path'', ''httpMethod'', ''responseMode''] False None None),
     (''n8n-nodes-base.scheduleTrigger'',
        mk_schema [] [''rule'', ''triggerTimes''] False None None),
     (''n8n-nodes-base.manualTrigger'', mk_schema [] [] False None None),
     (''n8n-nodes-base.stickyNote'',
        mk_schema [] [''content'', ''height'', ''width''] False None None),
     (''n8n-nodes-base.wait'', mk_schema [''resume''] [''amount'', ''unit''] False None None),
     (''n8n-nodes-base.errorTrigger'', mk_schema [] [] False None None),
     (''@n8n/n8n-nodes-langchain.toolHackerNews'',
        mk_schema [] [''operation'', ''articleId''] False None None),
     (''n8n-nodes-base.perplexity'',
        mk_schema [''operation''] [''prompt'', ''model''] True (Some ''perplexityApi'') None)]"

text \<open>\<open>self.schemas.get(node_type)\<close>; a node without a type asks for the key \<open>None\<close>.\<close>

definition lookup_schema :: "string option \<Rightarrow> schema option" where
  "lookup_schema t = (case t of None \<Rightarrow> None | Some ty \<Rightarrow> map_of schemas ty)"

record node_validation =
  valid :: bool
  errors :: "string list"
  warnings :: "string list"

text \<open>\<open>NodeSchemaValidator.validate_node\<close>.\<close>

definition validate_node :: "node \<Rightarrow> node_validation" where
  "validate_node n =
     (case lookup_schema (n_type n) of
        None \<Rightarrow>
          \<lparr>valid = True, errors = [],
           warnings = [''No schema found for node type: '' @
                        (case n_type n of None \<Rightarrow> ''None'' | Some t \<Rightarrow> t)]\<rparr>
      | Some sc \<Rightarrow>
          (let params = (case n_parameters n of None \<Rightarrow> [] | Some p \<Rightarrow> p);
               e1 = map (\<lambda>r. ''Missing required parameter: '' @ r)
                      (filter (\<lambda>r. \<not> has_key r params) (required sc));
               e2 = (if required sc \<noteq> [] \<and> params = []
                     then [''Parameters object is empty but required parameters are needed'']
                     else []);
               e3 = (if requires_credentials sc then
                       (case n_credentials n of
                          None \<Rightarrow> [''Missing credentials configuration'']
                        | Some creds \<Rightarrow>
                            (case credential_type sc of
                               None \<Rightarrow> []
                             | Some ct \<Rightarrow>
                                 if ct \<noteq> [] \<and> \<not> has_key ct creds
                                 then [''Missing credential type: '' @ ct] else []))
                     else []);
               errs = e1 @ e2 @ e3;
               warns = (if error_handling_recommended sc = Some True
                          \<and> n_onError n = None \<and> n_retryOnFail n = None
                        then [''Error handling recommended but not configured''] else [])
           in \<lparr>valid = (errs = []), errors = errs, warnings = warns\<rparr>))"

text \<open>\<open>requires_credentials\<close>, \<open>get_credential_type\<close> and \<open>needs_error_handling\<close> of the
  validator, by type tag.\<close>

definition requires_credentials_of :: "string \<Rightarrow> bool" where
  "requires_credentials_of t =
     (case map_of schemas t of None \<Rightarrow> False | Some sc \<Rightarrow> requires_credentials sc)"

definition get_credential_type :: "string \<Rightarrow> string option" where
  "get_credential_type t =
     (case map_of schemas t of None \<Rightarrow> None | Some sc \<Rightarrow> credential_type sc)"

definition needs_error_handling :: "string \<Rightarrow> bool" where
  "needs_error_handling t =
     (case map_of schemas t of
        None \<Rightarrow> False
      | Some sc \<Rightarrow> (case error_handling_recommended sc of None \<Rightarrow> False | Some b \<Rightarrow> b))"

section \<open>Quality Scorer (quality_validator.py)\<close>

text \<open>
  Every check returns a dictionary; the keys differ from check to check and from branch to
  branch, so each key that is not always there is optional. Counts are Python integers.
  A ratio \<open>k / n\<close> of two list lengths is a Python float; it is kept as the exact
  rational, which compares with the thresholds \<open>0.2, 0.3, ..., 0.9, 1.0\<close> as the float
  does for every list a machine can hold. The rendering of a float as a percentage
  (\<open>f"{percentage:.0%}"\<close>) depends on binary rounding and is a parameter \<open>pct\<close> of the
  functions that print one.
\<close>

record check_result =
  score :: int
  max_score :: int
  passed :: bool
  message :: string
  node_count :: "int option"
  required_count :: "int option"
  service_nodes :: "int option"
  with_credentials :: "int option"
  percentage :: "rat option"
  complete_nodes :: "int option"
  total_nodes :: "int option"
  nodes_with_error_handling :: "int option"
  unconnected_nodes :: "string list option"
  sticky_note_count :: "int option"
  features :: "string list option"
  feature_count :: "int option"

definition base_result :: "int \<Rightarrow> int \<Rightarrow> bool \<Rightarrow> string \<Rightarrow> check_result" where
  "base_result s m p msg =
     \<lparr>score = s, max_score = m, passed = p, message = msg,
      node_count = None, required_count = None, service_nodes = None,
      with_credentials = None, percentage = None, complete_nodes = None,
      total_nodes = None, nodes_with_error_handling = None, unconnected_nodes = None,
      sticky_note_count = None, features = None, feature_count = None\<rparr>"

text \<open>\<open>self.min_node_count.get(complexity, 25)\<close> and the other thresholds of the scorer.\<close>

definition min_node_count :: "string \<Rightarrow> int" where
  "min_node_count complexity =
     (if complexity = ''simple'' then 15
      else if complexity = ''standard'' then 25
      else if complexity = ''complex'' then 35
      else 25)"

definition min_error_handling_percentage :: rat where
  "min_error_handling_percentage = 3 / 10"

definition min_sticky_notes :: int where
  "min_sticky_notes = 5"

definition min_quality_score :: int where
  "min_quality_score = 80"

definition node_count_score :: "int \<Rightarrow> int" where
  "node_count_score c =
     (if c \<ge> 35 then 20
      else if c \<ge> 25 then 15
      else if c \<ge> 15 then 10
      else if c \<ge> 10 then 5
      else 0)"

definition check_node_count :: "workflow \<Rightarrow> string \<Rightarrow> check_result" where
  "check_node_count w complexity =
     (let cnt = int (length (get_nodes w));
          req = min_node_count complexity
      in (base_result (node_count_score cnt) 20 (cnt \<ge> req)
            (''Node count: '' @ str_int cnt @ '' (required: '' @ str_int req @ '')''))
         \<lparr>node_count := Some cnt, required_count := Some req\<rparr>)"

text \<open>The credential test of \<open>_check_credentials\<close> on one service node.\<close>

definition has_proper_credentials :: "node \<Rightarrow> bool" where
  "has_proper_credentials n =
     (case n_credentials n of
        None \<Rightarrow> False
      | Some creds \<Rightarrow>
          (case get_credential_type (get_type n) of
             None \<Rightarrow> False
           | Some ct \<Rightarrow> ct \<noteq> [] \<and> has_key ct creds))"

definition credentials_score :: "rat \<Rightarrow> int" where
  "credentials_score p =
     (if p \<ge> 1 then 15
      else if p \<ge> 8 / 10 then 12
      else if p \<ge> 6 / 10 then 9
      else if p \<ge> 4 / 10 then 6
      else 0)"

definition check_credentials :: "workflow \<Rightarrow> check_result" where
  "check_credentials w =
     (let service = filter (\<lambda>n. requires_credentials_of (get_type n)) (get_nodes w)
      in if service = [] then
           base_result 15 15 True ''No service nodes requiring credentials''
         else
           (let with_creds = int (length (filter has_proper_credentials service));
                total = int (length service);
                p = of_int with_creds / of_int total
            in (base_result (credentials_score p) 15 (p \<ge> 9 / 10)
                  (str_int with_creds @ ''/'' @ str_int total
                     @ '' service nodes have credentials''))
               \<lparr>service_nodes := Some total, with_credentials := Some with_creds,
                percentage := Some p\<rparr>))"

definition parameters_score :: "rat \<Rightarrow> int" where
  "parameters_score p =
     (if p \<ge> 1 then 15
      else if p \<ge> 9 / 10 then 12
      else if p \<ge> 8 / 10 then 9
      else 0)"

definition check_parameters :: "workflow \<Rightarrow> check_result" where
  "check_parameters w =
     (let plain = filter (\<lambda>n. n_type n \<noteq> Some stickyNote) (get_nodes w);
          total = int (length plain);
          complete = int (length (filter (\<lambda>n. valid (validate_node n)) plain));
          p = (if total = 0 then 1 else of_int complete / of_int total)
      in (base_result (parameters_score p) 15 (p \<ge> 8 / 10)
            (str_int complete @ ''/'' @ str_int total
               @ '' nodes have complete parameters''))
         \<lparr>complete_nodes := Some complete, total_nodes := Some total,
          percentage := Some p\<rparr>)"

definition error_handling_score :: "rat \<Rightarrow> int" where
  "error_handling_score p =
     (if p \<ge> 5 / 10 then 20
      else if p \<ge> 4 / 10 then 16
      else if p \<ge> 3 / 10 then 12
      else if p \<ge> 2 / 10 then 8
      else 0)"

definition processable :: "node \<Rightarrow> bool" where
  "processable n =
     (\<not> endswith (get_type n) ''Trigger'' \<and> n_type n \<noteq> Some stickyNote)"

definition has_error_key :: "node \<Rightarrow> bool" where
  "has_error_key n =
     (n_onError n \<noteq> None \<or> n_retryOnFail n \<noteq> None \<or> n_continueOnFail n \<noteq> None)"

definition check_error_handling :: "(rat \<Rightarrow> string) \<Rightarrow> workflow \<Rightarrow> check_result" where
  "check_error_handling pct w =
     (let procs = filter processable (get_nodes w)
      in if procs = [] then
           base_result 0 20 False ''No processable nodes found''
         else
           (let with_errors = int (length (filter has_error_key procs));
                total = int (length procs);
                p = of_int with_errors / of_int total
            in (base_result (error_handling_score p) 20 (p \<ge> min_error_handling_percentage)
                  (str_int with_errors @ ''/'' @ str_int total
                     @ '' nodes have error handling ('' @ pct p @ '')''))
               \<lparr>nodes_with_error_handling := Some with_errors, total_nodes := Some total,
                percentage := Some p\<rparr>))"

text \<open>
  \<open>_check_connections\<close> reads \<open>n['name']\<close> of every node, which raises \<open>KeyError\<close> on a
  node without a name. Its sets are lists without repetition here; Python fixes no order
  for \<open>list(unconnected)\<close>, the order of first occurrence stands for it.
\<close>

fun names_of :: "node list \<Rightarrow> py_error + string list" where
  "names_of [] = Inr []"
| "names_of (n # ns) =
     (case n_name n of
        None \<Rightarrow> Inl (KeyError ''name'')
      | Some nm \<Rightarrow> (case names_of ns of Inl e \<Rightarrow> Inl e | Inr r \<Rightarrow> Inr (nm # r)))"

definition targets_of :: "connections \<Rightarrow> string list" where
  "targets_of cs =
     concat (map (\<lambda>(src, data).
        concat (map (\<lambda>(ctype, lists). map c_node (concat lists)) data)) cs)"

definition check_connections :: "workflow \<Rightarrow> py_error + check_result" where
  "check_connections w =
     (let nodes = get_nodes w;
          conns = (case w_connections w of None \<Rightarrow> [] | Some c \<Rightarrow> c)
      in case names_of nodes of
           Inl e \<Rightarrow> Inl e
         | Inr node_names \<Rightarrow>
             (let trigger_nodes =
                    List.map_filter n_name
                      (filter (\<lambda>n. endswith (get_type n) ''Trigger'') nodes);
                  sticky_notes =
                    List.map_filter n_name
                      (filter (\<lambda>n. n_type n = Some stickyNote) nodes);
                  nodes_needing_input =
                    remdups (filter (\<lambda>x. x \<notin> set trigger_nodes \<and> x \<notin> set sticky_notes)
                               node_names);
                  nodes_with_input = remdups (targets_of conns);
                  unconnected =
                    filter (\<lambda>x. x \<notin> set nodes_with_input) nodes_needing_input;
                  ok = (unconnected = [])
              in Inr ((base_result (if ok then 5 else 0) 5 ok
                         (str_int (int (length nodes_with_input)) @ ''/''
                            @ str_int (int (length nodes_needing_input))
                            @ '' required nodes connected''))
                      \<lparr>unconnected_nodes := Some unconnected\<rparr>)))"

definition documentation_score :: "int \<Rightarrow> int" where
  "documentation_score c =
     (if c \<ge> 8 then 10 else if c \<ge> 5 then 7 else if c \<ge> 3 then 4 else 0)"

definition check_documentation :: "workflow \<Rightarrow> check_result" where
  "check_documentation w =
     (let cnt = int (length (filter (\<lambda>n. n_type n = Some stickyNote) (get_nodes w)))
      in (base_result (documentation_score cnt) 10 (cnt \<ge> min_sticky_notes)
            (str_int cnt @ '' sticky notes (minimum: '' @ str_int min_sticky_notes @ '')''))
         \<lparr>sticky_note_count := Some cnt, required_count := Some min_sticky_notes\<rparr>)"

text \<open>
  \<open>any(n['type'] == t for n in nodes)\<close> stops at the first match and raises \<open>KeyError\<close>
  at a node without a type met before it.
\<close>

fun any_type_is :: "string \<Rightarrow> node list \<Rightarrow> py_error + bool" where
  "any_type_is t [] = Inr False"
| "any_type_is t (n # ns) =
     (case n_type n of
        None \<Rightarrow> Inl (KeyError ''type'')
      | Some ty \<Rightarrow> if ty = t then Inr True else any_type_is t ns)"

definition flow_complexity_score :: "string \<Rightarrow> int \<Rightarrow> int" where
  "flow_complexity_score complexity fc =
     (if complexity = ''simple'' then
        (if fc \<ge> 2 then 15 else if fc \<ge> 1 then 10 else 5)
      else
        (if fc \<ge> 3 then 15 else if fc \<ge> 2 then 10 else if fc \<ge> 1 then 5 else 0))"

definition check_flow_complexity :: "workflow \<Rightarrow> string \<Rightarrow> py_error + check_result" where
  "check_flow_complexity w complexity =
     (let nodes = get_nodes w in
      case any_type_is ''n8n-nodes-base.if'' nodes of Inl e \<Rightarrow> Inl e | Inr has_if \<Rightarrow>
      case any_type_is ''n8n-nodes-base.switch'' nodes of Inl e \<Rightarrow> Inl e | Inr has_switch \<Rightarrow>
      case any_type_is ''n8n-nodes-base.merge'' nodes of Inl e \<Rightarrow> Inl e | Inr has_merge \<Rightarrow>
      case any_type_is ''n8n-nodes-base.set'' nodes of Inl e \<Rightarrow> Inl e | Inr has_set \<Rightarrow>
      (let has_code = (\<exists>n \<in> set nodes. n_type n = Some ''n8n-nodes-base.code''
                         \<or> n_type n = Some ''n8n-nodes-base.function'');
           feats = (if has_if \<or> has_switch then [''conditional logic''] else [])
                 @ (if has_merge then [''merging''] else [])
                 @ (if has_set then [''data transformation''] else [])
                 @ (if has_code then [''custom logic''] else []);
           fc = int (length feats)
       in Inr ((base_result (flow_complexity_score complexity fc) 15
                  (fc \<ge> (if complexity = ''simple'' then 1 else 2))
                  (''Flow features: '' @ (if feats \<noteq> [] then join '', '' feats else ''none'')))
               \<lparr>features := Some feats, feature_count := Some fc\<rparr>)))"

record details =
  d_node_count :: check_result
  d_credentials :: check_result
  d_parameters :: check_result
  d_error_handling :: check_result
  d_connections :: check_result
  d_documentation :: check_result
  d_flow_complexity :: check_result

definition calculate_score :: "details \<Rightarrow> int" where
  "calculate_score d =
     score (d_node_count d) + score (d_credentials d) + score (d_parameters d)
       + score (d_error_handling d) + score (d_connections d) + score (d_documentation d)
       + score (d_flow_complexity d)"

definition get_grade :: "int \<Rightarrow> string" where
  "get_grade s =
     (if s \<ge> 90 then ''A (Excellent)''
      else if s \<ge> 80 then ''B (Good)''
      else if s \<ge> 70 then ''C (Acceptable)''
      else if s \<ge> 60 then ''D (Needs Improvement)''
      else ''F (Poor)'')"

record quality_result =
  q_valid :: bool
  q_score :: int
  q_details :: details
  q_required_score :: int
  q_grade :: string

text \<open>\<open>QualityValidator.validate\<close>: the seven checks in the order of the source, the first
  exception ends the call.\<close>

definition validate :: "(rat \<Rightarrow> string) \<Rightarrow> workflow \<Rightarrow> string \<Rightarrow> py_error + quality_result" where
  "validate pct w complexity =
     (case check_connections w of Inl e \<Rightarrow> Inl e | Inr conn_res \<Rightarrow>
      case check_flow_complexity w complexity of Inl e \<Rightarrow> Inl e | Inr flow_res \<Rightarrow>
      (let results =
             \<lparr>d_node_count = check_node_count w complexity,
              d_credentials = check_credentials w,
              d_parameters = check_parameters w,
              d_error_handling = check_error_handling pct w,
              d_connections = conn_res,
              d_documentation = check_documentation w,
              d_flow_complexity = flow_res\<rparr>;
           overall = calculate_score results
       in Inr \<lparr>q_valid = (overall \<ge> min_quality_score), q_score = overall,
               q_details = results, q_required_score = min_quality_score,
               q_grade = get_grade overall\<rparr>))"

text \<open>Reading a key of a check result: \<open>KeyError\<close> when the check did not store it.\<close>

definition need :: "string \<Rightarrow> 'a option \<Rightarrow> py_error + 'a" where
  "need k v = (case v of None \<Rightarrow> Inl (KeyError k) | Some x \<Rightarrow> Inr x)"

text \<open>\<open>QualityValidator.generate_feedback\<close>, one block per check.\<close>

definition fb_node_count :: "check_result \<Rightarrow> py_error + string list" where
  "fb_node_count r =
     (if passed r then Inr []
      else case need ''node_count'' (node_count r) of Inl e \<Rightarrow> Inl e | Inr c \<Rightarrow>
           case need ''required'' (required_count r) of Inl e \<Rightarrow> Inl e | Inr q \<Rightarrow>
             Inr [''CRITICAL: Workflow has only '' @ str_int c @ '' nodes. ''
                    @ ''Add more nodes to reach '' @ str_int q @ '' nodes minimum.''])"

definition fb_credentials :: "check_result \<Rightarrow> py_error + string list" where
  "fb_credentials r =
     (if passed r then Inr []
      else case need ''service_nodes'' (service_nodes r) of Inl e \<Rightarrow> Inl e | Inr s \<Rightarrow>
           case need ''with_credentials'' (with_credentials r) of Inl e \<Rightarrow> Inl e | Inr c \<Rightarrow>
             Inr [''CRITICAL: '' @ str_int (s - c) @ '' ''
                    @ ''service nodes missing credentials configuration.''])"

definition fb_parameters :: "check_result \<Rightarrow> py_error + string list" where
  "fb_parameters r =
     (if passed r then Inr []
      else case need ''total_nodes'' (total_nodes r) of Inl e \<Rightarrow> Inl e | Inr t \<Rightarrow>
           case need ''complete_nodes'' (complete_nodes r) of Inl e \<Rightarrow> Inl e | Inr c \<Rightarrow>
             Inr [''CRITICAL: '' @ str_int (t - c) @ '' ''
                    @ ''nodes have incomplete or missing parameters.''])"

definition fb_error_handling :: "(rat \<Rightarrow> string) \<Rightarrow> check_result \<Rightarrow> py_error + string list" where
  "fb_error_handling pct r =
     (if passed r then Inr []
      else case need ''percentage'' (percentage r) of Inl e \<Rightarrow> Inl e | Inr p \<Rightarrow>
             Inr [''WARNING: Only '' @ pct p @ '' of nodes have error handling. ''
                    @ ''Add onError, retryOnFail, or continueOnFail to critical nodes.''])"

definition fb_connections :: "check_result \<Rightarrow> py_error + string list" where
  "fb_connections r =
     (if passed r then Inr []
      else case need ''unconnected_nodes'' (unconnected_nodes r) of Inl e \<Rightarrow> Inl e | Inr u \<Rightarrow>
             Inr [''CRITICAL: '' @ str_int (int (length u)) @ '' nodes are not connected: ''
                    @ join '', '' (take 3 u)])"

definition fb_documentation :: "check_result \<Rightarrow> py_error + string list" where
  "fb_documentation r =
     (if passed r then Inr []
      else case need ''required'' (required_count r) of Inl e \<Rightarrow> Inl e | Inr q \<Rightarrow>
           case need ''sticky_note_count'' (sticky_note_count r) of Inl e \<Rightarrow> Inl e | Inr c \<Rightarrow>
             Inr [''WARNING: Add '' @ str_int (q - c)
                    @ '' more sticky notes to document workflow sections.''])"

definition fb_flow_complexity :: "check_result \<Rightarrow> string list" where
  "fb_flow_complexity r =
     (if passed r then []
      else [''WARNING: Workflow lacks complexity features. Add IF/Switch nodes for branching, ''
              @ ''Merge nodes for parallel paths, or Set nodes for data transformation.''])"

definition generate_feedback :: "(rat \<Rightarrow> string) \<Rightarrow> quality_result \<Rightarrow> py_error + string list" where
  "generate_feedback pct res =
     (let d = q_details res in
      case fb_node_count (d_node_count d) of Inl e \<Rightarrow> Inl e | Inr f1 \<Rightarrow>
      case fb_credentials (d_credentials d) of Inl e \<Rightarrow> Inl e | Inr f2 \<Rightarrow>
      case fb_parameters (d_parameters d) of Inl e \<Rightarrow> Inl e | Inr f3 \<Rightarrow>
      case fb_error_handling pct (d_error_handling d) of Inl e \<Rightarrow> Inl e | Inr f4 \<Rightarrow>
      case fb_connections (d_connections d) of Inl e \<Rightarrow> Inl e | Inr f5 \<Rightarrow>
      case fb_documentation (d_documentation d) of Inl e \<Rightarrow> Inl e | Inr f6 \<Rightarrow>
        Inr (f1 @ f2 @ f3 @ f4 @ f5 @ f6 @ fb_flow_complexity (d_flow_complexity d)))"

section \<open>Structural Validator (validation_service.py, models/workflow.py)\<close>

text \<open>
  The structural validator receives the models of \<open>models/workflow.py\<close>. A validated
  \<open>WorkflowJSON\<close> has every required field; one that was built without validation
  (\<open>model_construct\<close>, or an assignment after construction) can hold \<open>None\<close> under
  \<open>name\<close>, \<open>nodes\<close> or \<open>connections\<close>, which is what \<open>_validate_structure\<close> looks
  for. The three fields are optional here; the nodes and the connection entries are
  validated models, with every required field present and of its declared type.
\<close>

record WorkflowNode =
  wn_id :: string
  wn_name :: string
  wn_type :: string
  wn_typeVersion :: int
  wn_position :: "int list"
  wn_parameters :: "(string \<times> json) list"
  wn_credentials :: "(string \<times> (string \<times> string) list) list option"

record WorkflowConnection =
  wc_node :: string
  wc_type :: string
  wc_index :: int

type_synonym connection_map =
  "(string \<times> (string \<times> WorkflowConnection list list) list) list"

record WorkflowJSON =
  wf_name :: "string option"
  wf_nodes :: "WorkflowNode list option"
  wf_connections :: "connection_map option"
  wf_active :: "bool option"
  wf_settings :: "(string \<times> json) list option"
  wf_meta :: "(string \<times> json) list option"

record ValidationError =
  ve_type :: string
  ve_message :: string
  ve_nodeId :: "string option"

record ValidationResult =
  isValid :: bool
  vr_errors :: "ValidationError list"
  vr_warnings :: "string list"

definition REQUIRED_WORKFLOW_FIELDS :: "string list" where
  "REQUIRED_WORKFLOW_FIELDS = [''name'', ''nodes'', ''connections'']"

definition REQUIRED_NODE_FIELDS :: "string list" where
  "REQUIRED_NODE_FIELDS =
     [''id'', ''name'', ''type'', ''typeVersion'', ''position'', ''parameters'']"

definition TRIGGER_NODE_TYPES :: "string list" where
  "TRIGGER_NODE_TYPES =
     [''n8n-nodes-base.manualTrigger'', ''n8n-nodes-base.webhook'',
      ''n8n-nodes-base.scheduleTrigger'', ''n8n-nodes-base.cronTrigger'']"

text \<open>
  \<open>model_dump()\<close> lists every field of the model; all that the validator asks of a dumped
  value is whether it is \<open>None\<close>, so the dump pairs each field name with that answer.
\<close>

definition workflow_dump :: "WorkflowJSON \<Rightarrow> (string \<times> bool) list" where
  "workflow_dump w =
     [(''name'', wf_name w = None), (''nodes'', wf_nodes w = None),
      (''connections'', wf_connections w = None),
      (''active'', wf_active w = None), (''settings'', wf_settings w = None),
      (''meta'', wf_meta w = None)]"

definition node_dump :: "WorkflowNode \<Rightarrow> (string \<times> bool) list" where
  "node_dump n =
     [(''id'', False), (''name'', False), (''type'', False), (''typeVersion'', False),
      (''position'', False), (''parameters'', False),
      (''credentials'', wn_credentials n = None)]"

text \<open>\<open>field not in d or d[field] is None\<close>.\<close>

definition missing_field :: "(string \<times> bool) list \<Rightarrow> string \<Rightarrow> bool" where
  "missing_field d f = (case map_of d f of None \<Rightarrow> True | Some is_none \<Rightarrow> is_none)"

text \<open>\<open>_validate_structure\<close>; \<open>not workflow.nodes\<close> holds for \<open>None\<close> and for the empty
  list.\<close>

definition validate_structure :: "WorkflowJSON \<Rightarrow> ValidationError list" where
  "validate_structure w =
     map (\<lambda>f. \<lparr>ve_type = ''structure'', ve_message = ''Missing required field: '' @ f,
               ve_nodeId = None\<rparr>)
       (filter (missing_field (workflow_dump w)) REQUIRED_WORKFLOW_FIELDS)
     @ (if wf_nodes w = None \<or> wf_nodes w = Some [] then
          [\<lparr>ve_type = ''structure'',
            ve_message = ''Workflow must contain at least one node'', ve_nodeId = None\<rparr>]
        else [])"

definition validate_one_node :: "WorkflowNode \<Rightarrow> ValidationError list" where
  "validate_one_node n =
     map (\<lambda>f. \<lparr>ve_type = ''node'', ve_message = ''Node missing required field: '' @ f,
               ve_nodeId = Some (wn_id n)\<rparr>)
       (filter (missing_field (node_dump n)) REQUIRED_NODE_FIELDS)
     @ (if length (wn_position n) \<noteq> 2 then
          [\<lparr>ve_type = ''node'', ve_message = ''Node position must be [x, y]'',
            ve_nodeId = Some (wn_id n)\<rparr>]
        else [])
     @ (if \<not> startswith (wn_type n) ''n8n-nodes-base.'' then
          [\<lparr>ve_type = ''node'', ve_message = ''Invalid node type format: '' @ wn_type n,
            ve_nodeId = Some (wn_id n)\<rparr>]
        else [])"

text \<open>
  The later passes do not look at what \<open>_validate_structure\<close> found: \<open>for node in
  workflow.nodes\<close> raises \<open>TypeError\<close> when \<open>nodes\<close> is \<open>None\<close>, and
  \<open>workflow.connections.items()\<close> raises \<open>AttributeError\<close> when \<open>connections\<close> is
  \<open>None\<close>.
\<close>

definition iter_nodes :: "WorkflowJSON \<Rightarrow> py_error + WorkflowNode list" where
  "iter_nodes w = (case wf_nodes w of None \<Rightarrow> Inl TypeError | Some ns \<Rightarrow> Inr ns)"

definition connection_items :: "WorkflowJSON \<Rightarrow> py_error + connection_map" where
  "connection_items w =
     (case wf_connections w of None \<Rightarrow> Inl AttributeError | Some cs \<Rightarrow> Inr cs)"

definition validate_nodes :: "WorkflowJSON \<Rightarrow> py_error + ValidationError list" where
  "validate_nodes w =
     (case iter_nodes w of
        Inl e \<Rightarrow> Inl e
      | Inr ns \<Rightarrow> Inr (concat (map validate_one_node ns)))"

text \<open>
  \<open>_validate_connections\<close> reads \<open>outputs['main']\<close> after testing \<open>'main' in outputs\<close>;
  the subscript is the fallible lookup \<open>subscript\<close>, and the loop stops at an exception.
\<close>

definition subscript :: "(string \<times> 'v) list \<Rightarrow> string \<Rightarrow> py_error + 'v" where
  "subscript d k = (case map_of d k of None \<Rightarrow> Inl (KeyError k) | Some v \<Rightarrow> Inr v)"

definition target_errors ::
  "string list \<Rightarrow> string \<Rightarrow> WorkflowConnection list list \<Rightarrow> ValidationError list" where
  "target_errors node_names source_name groups =
     map (\<lambda>c. \<lparr>ve_type = ''connection'',
               ve_message = ''Connection target node not found: '' @ wc_node c,
               ve_nodeId = Some source_name\<rparr>)
       (filter (\<lambda>c. wc_node c \<notin> set node_names) (concat groups))"

fun connection_errors ::
  "string list \<Rightarrow> connection_map \<Rightarrow> py_error + ValidationError list" where
  "connection_errors node_names [] = Inr []"
| "connection_errors node_names ((source_name, outputs) # rest) =
     (if source_name \<notin> set node_names then
        (case connection_errors node_names rest of
           Inl e \<Rightarrow> Inl e
         | Inr es \<Rightarrow>
             Inr (\<lparr>ve_type = ''connection'',
                    ve_message = ''Connection source node not found: '' @ source_name,
                    ve_nodeId = None\<rparr> # es))
      else if has_key ''main'' outputs then
        (case subscript outputs ''main'' of
           Inl e \<Rightarrow> Inl e
         | Inr groups \<Rightarrow>
             (case connection_errors node_names rest of
                Inl e \<Rightarrow> Inl e
              | Inr es \<Rightarrow> Inr (target_errors node_names source_name groups @ es)))
      else connection_errors node_names rest)"

definition validate_connections :: "WorkflowJSON \<Rightarrow> py_error + ValidationError list" where
  "validate_connections w =
     (case iter_nodes w of
        Inl e \<Rightarrow> Inl e
      | Inr ns \<Rightarrow>
          (case connection_items w of
             Inl e \<Rightarrow> Inl e
           | Inr cs \<Rightarrow> connection_errors (map wn_name ns) cs))"

definition validate_trigger :: "WorkflowJSON \<Rightarrow> py_error + string list" where
  "validate_trigger w =
     (case iter_nodes w of
        Inl e \<Rightarrow> Inl e
      | Inr ns \<Rightarrow>
          Inr (if \<exists>n \<in> set ns. wn_type n \<in> set TRIGGER_NODE_TYPES then []
               else [''Workflow does not contain a trigger node. ''
                       @ ''It may need to be started manually or have a trigger added.'']))"

fun unique_name_errors :: "string list \<Rightarrow> WorkflowNode list \<Rightarrow> ValidationError list" where
  "unique_name_errors seen [] = []"
| "unique_name_errors seen (n # ns) =
     (if wn_name n \<in> set seen then
        [\<lparr>ve_type = ''node'', ve_message = ''Duplicate node name: '' @ wn_name n,
          ve_nodeId = Some (wn_id n)\<rparr>]
      else [])
     @ unique_name_errors (wn_name n # seen) ns"

definition validate_unique_names :: "WorkflowJSON \<Rightarrow> py_error + ValidationError list" where
  "validate_unique_names w =
     (case iter_nodes w of
        Inl e \<Rightarrow> Inl e
      | Inr ns \<Rightarrow> Inr (unique_name_errors [] ns))"

fun connected_names :: "connection_map \<Rightarrow> py_error + string list" where
  "connected_names [] = Inr []"
| "connected_names ((source_name, outputs) # rest) =
     (if has_key ''main'' outputs then
        (case subscript outputs ''main'' of
           Inl e \<Rightarrow> Inl e
         | Inr groups \<Rightarrow>
             (case connected_names rest of
                Inl e \<Rightarrow> Inl e
              | Inr r \<Rightarrow> Inr (source_name # map wc_node (concat groups) @ r)))
      else
        (case connected_names rest of Inl e \<Rightarrow> Inl e | Inr r \<Rightarrow> Inr (source_name # r)))"

definition generate_warnings :: "WorkflowJSON \<Rightarrow> py_error + string list" where
  "generate_warnings w =
     (case connection_items w of
        Inl e \<Rightarrow> Inl e
      | Inr cs \<Rightarrow>
          (case connected_names cs of
             Inl e \<Rightarrow> Inl e
           | Inr connected_nodes \<Rightarrow>
               (case iter_nodes w of
                  Inl e \<Rightarrow> Inl e
                | Inr ns \<Rightarrow>
                    (let disconnected =
                           filter (\<lambda>nm. nm \<notin> set connected_nodes) (map wn_name ns)
                     in Inr ((if disconnected \<noteq> [] then
                                [''Disconnected nodes found: '' @ join '', '' disconnected
                                   @ ''. '' @ ''These nodes will not execute.'']
                              else [])
                             @ (if wf_name w = None \<or> wf_name w = Some []
                                   \<or> wf_name w = Some ''My Workflow'' then
                                  [''Consider giving the workflow a more descriptive name'']
                                else []))))))"

text \<open>\<open>ValidationService.validate_workflow\<close>: the six passes in the order of the source,
  the first exception ends the call.\<close>

definition validate_workflow :: "WorkflowJSON \<Rightarrow> py_error + ValidationResult" where
  "validate_workflow w =
     (case validate_nodes w of Inl e \<Rightarrow> Inl e | Inr node_errors \<Rightarrow>
     (case validate_connections w of Inl e \<Rightarrow> Inl e | Inr conn_errors \<Rightarrow>
     (case validate_trigger w of Inl e \<Rightarrow> Inl e | Inr trigger_warnings \<Rightarrow>
     (case validate_unique_names w of Inl e \<Rightarrow> Inl e | Inr name_errors \<Rightarrow>
     (case generate_warnings w of Inl e \<Rightarrow> Inl e | Inr more_warnings \<Rightarrow>
        (let errs = validate_structure w @ node_errors @ conn_errors @ name_errors;
             warns = trigger_warnings @ more_warnings
         in Inr \<lparr>isValid = (errs = []), vr_errors = errs, vr_warnings = warns\<rparr>))))))"















section \<open>Adding a credential binding\<close>

text \<open>
  The change of a node that the credential-completeness property speaks of: the binding
  \<open>node['credentials'][kind] = ref\<close>, on a credential bag that is created when absent.
\<close>

definition bind_credential :: "string \<Rightarrow> json \<Rightarrow> node \<Rightarrow> node" where
  "bind_credential kind ref n =
     n\<lparr>n_credentials :=
         Some ((kind, ref) # (case n_credentials n of None \<Rightarrow> [] | Some creds \<Rightarrow> creds))\<rparr>"

section \<open>Refinement Pipeline (enhanced_workflow_generator.py, config.py)\<close>

text \<open>
  Strings are ASCII: \<open>lower\<close> and \<open>title\<close> change the letters \<open>A-Z\<close> and \<open>a-z\<close> only.
\<close>

definition is_upper :: "char \<Rightarrow> bool" where
  "is_upper c = (65 \<le> (of_char c :: nat) \<and> (of_char c :: nat) \<le> 90)"

definition is_lower :: "char \<Rightarrow> bool" where
  "is_lower c = (97 \<le> (of_char c :: nat) \<and> (of_char c :: nat) \<le> 122)"

definition lower_char :: "char \<Rightarrow> char" where
  "lower_char c = (if is_upper c then char_of ((of_char c :: nat) + 32) else c)"

definition upper_char :: "char \<Rightarrow> char" where
  "upper_char c = (if is_lower c then char_of ((of_char c :: nat) - 32) else c)"

definition lower :: "string \<Rightarrow> string" where
  "lower s = map lower_char s"

text \<open>\<open>s.title()\<close>: a letter after a letter is lowered, any other letter is raised.\<close>

fun title_from :: "bool \<Rightarrow> string \<Rightarrow> string" where
  "title_from prev [] = []"
| "title_from prev (c # cs) =
     (if is_upper c \<or> is_lower c
      then (if prev then lower_char c else upper_char c) # title_from True cs
      else c # title_from False cs)"

definition title :: "string \<Rightarrow> string" where
  "title s = title_from False s"

text \<open>\<open>s.replace(old, new)\<close> for a non-empty \<open>old\<close>.\<close>

function replace :: "string \<Rightarrow> string \<Rightarrow> string \<Rightarrow> string" where
  "replace old new [] = []"
| "replace old new (c # cs) =
     (if old \<noteq> [] \<and> startswith (c # cs) old
      then new @ replace old new (drop (length old) (c # cs))
      else c # replace old new cs)"
  by pat_completeness auto
termination
  by (relation "measure (\<lambda>(old, new, s). length s)") (auto simp: neq_Nil_conv)

definition max_generation_attempts :: nat where
  "max_generation_attempts = 3"

text \<open>
  \<open>uuid.uuid4()\<close> draws from the system's random source. The values drawn during a run
  are a sequence \<open>uuid :: nat \<Rightarrow> string\<close>, a parameter of each function that draws, and
  the number of values drawn so far is passed along.
\<close>

definition fix_node :: "(nat \<Rightarrow> string) \<Rightarrow> nat \<Rightarrow> node \<Rightarrow> node \<times> nat" where
  "fix_node uuid k n =
     (let n1 = (if n_id n = None then n\<lparr>n_id := Some (uuid k)\<rparr> else n);
          n2 = (if n_position n1 = None then n1\<lparr>n_position := Some [0, 0]\<rparr> else n1);
          n3 = (if n_parameters n2 = None then n2\<lparr>n_parameters := Some []\<rparr> else n2);
          n4 = (if n_typeVersion n3 = None then n3\<lparr>n_typeVersion := Some 1\<rparr> else n3)
      in (n4, if n_id n = None then Suc k else k))"

fun fix_nodes :: "(nat \<Rightarrow> string) \<Rightarrow> nat \<Rightarrow> node list \<Rightarrow> node list \<times> nat" where
  "fix_nodes uuid k [] = ([], k)"
| "fix_nodes uuid k (n # ns) =
     (let (n', k1) = fix_node uuid k n;
          (ns', k2) = fix_nodes uuid k1 ns
      in (n' # ns', k2))"

definition fix_structure :: "(nat \<Rightarrow> string) \<Rightarrow> nat \<Rightarrow> workflow \<Rightarrow> workflow \<times> nat" where
  "fix_structure uuid k w =
     (let w1 = (if w_name w = None then w\<lparr>w_name := Some ''Generated Workflow''\<rparr> else w);
          w2 = (if w_nodes w1 = None then w1\<lparr>w_nodes := Some []\<rparr> else w1);
          w3 = (if w_connections w2 = None then w2\<lparr>w_connections := Some []\<rparr> else w2);
          w4 = (if w_active w3 = None then w3\<lparr>w_active := Some False\<rparr> else w3);
          w5 = (if w_settings w4 = None
                then w4\<lparr>w_settings := Some [(''executionOrder'', JStr ''v1'')]\<rparr> else w4);
          (ns, k') = fix_nodes uuid k (get_nodes w5)
      in (w5\<lparr>w_nodes := Some ns\<rparr>, k'))"

text \<open>\<open>_fix_parameters\<close> validates every node and prints the findings; the graph is
  returned as it came.\<close>

definition fix_parameters :: "workflow \<Rightarrow> workflow" where
  "fix_parameters w = w"

definition get_service_name :: "string \<Rightarrow> string" where
  "get_service_name node_type =
     title (replace ''-'' '' '' (replace ''_'' '' ''
       (replace ''@blotato/n8n-nodes-blotato.'' ''''
         (replace ''@n8n/n8n-nodes-langchain.'' ''''
           (replace ''n8n-nodes-base.'' '''' node_type)))))"

definition inject_node_credentials :: "node \<Rightarrow> node" where
  "inject_node_credentials n =
     (if requires_credentials_of (get_type n) \<and> n_credentials n = None then
        (case get_credential_type (get_type n) of
           None \<Rightarrow> n
         | Some ct \<Rightarrow>
             if ct = [] then n
             else n\<lparr>n_credentials :=
                      Some [(ct, JObj [(''id'', JStr ''{{CREDENTIAL_ID}}''),
                                       (''name'', JStr (get_service_name (get_type n)
                                                         @ '' account''))])]\<rparr>)
      else n)"

text \<open>The passes below loop over \<open>workflow.get('nodes', [])\<close> and change each node in
  place; a graph that has no \<open>nodes\<close> key is left without one.\<close>

definition map_nodes :: "(node \<Rightarrow> node) \<Rightarrow> workflow \<Rightarrow> workflow" where
  "map_nodes f w =
     (case w_nodes w of None \<Rightarrow> w | Some ns \<Rightarrow> w\<lparr>w_nodes := Some (map f ns)\<rparr>)"

definition inject_credentials :: "workflow \<Rightarrow> workflow" where
  "inject_credentials w = map_nodes inject_node_credentials w"

definition add_node_error_handling :: "node \<Rightarrow> node" where
  "add_node_error_handling n =
     (if endswith (get_type n) ''Trigger'' \<or> get_type n = stickyNote then n
      else if needs_error_handling (get_type n) then
        (let n1 = (if n_onError n = None
                   then n\<lparr>n_onError := Some ''continueRegularOutput''\<rparr> else n);
             n2 = (if n_retryOnFail n1 = None then n1\<lparr>n_retryOnFail := Some True\<rparr> else n1)
         in if n_maxTries n2 = None then n2\<lparr>n_maxTries := Some 3\<rparr> else n2)
      else n)"

definition add_error_handling :: "workflow \<Rightarrow> workflow" where
  "add_error_handling w = map_nodes add_node_error_handling w"

record section_info =
  s_title :: string
  s_description :: string
  s_position :: "int list"

definition node_position_or :: "int list \<Rightarrow> node \<Rightarrow> int list" where
  "node_position_or dflt n = (case n_position n of None \<Rightarrow> dflt | Some p \<Rightarrow> p)"

definition first_section ::
  "string \<Rightarrow> string \<Rightarrow> int list \<Rightarrow> node list \<Rightarrow> section_info list" where
  "first_section t d dflt found =
     (case found of
        [] \<Rightarrow> []
      | n # _ \<Rightarrow> [\<lparr>s_title = t, s_description = d, s_position = node_position_or dflt n\<rparr>])"

definition node_name_or_empty :: "node \<Rightarrow> string" where
  "node_name_or_empty n = (case n_name n of None \<Rightarrow> [] | Some nm \<Rightarrow> nm)"

definition identify_workflow_sections :: "workflow \<Rightarrow> section_info list" where
  "identify_workflow_sections w =
     (let nodes = get_nodes w;
          triggers = filter (\<lambda>n. endswith (get_type n) ''Trigger'') nodes;
          conditionals = filter (\<lambda>n. n_type n = Some ''n8n-nodes-base.if''
                                     \<or> n_type n = Some ''n8n-nodes-base.switch'') nodes;
          ai_nodes = filter (\<lambda>n. contains ''ai'' (lower (get_type n))
                                \<or> contains ''openai'' (lower (get_type n))) nodes;
          merges = filter (\<lambda>n. n_type n = Some ''n8n-nodes-base.merge'') nodes;
          output_nodes =
            filter (\<lambda>n. \<exists>word \<in> set [''post'', ''send'', ''save'', ''create''].
                          contains word (lower (node_name_or_empty n))) nodes;
          sections =
              first_section ''Workflow Trigger'' ''Initiates the workflow execution''
                [0, 0] triggers
            @ first_section ''Conditional Logic'' ''Routes data based on conditions''
                [220, 0] conditionals
            @ first_section ''AI Processing'' ''AI-powered content generation''
                [440, 0] ai_nodes
            @ first_section ''Merge Results'' ''Combines parallel execution paths''
                [660, 0] merges
            @ first_section ''Output Actions'' ''Final workflow outputs''
                [880, 0] output_nodes
      in if length sections < 3 then
           sections @ [\<lparr>s_title = ''Data Processing'',
                         s_description = ''Transform and prepare data'',
                         s_position = [440, 300]\<rparr>]
         else sections)"

text \<open>\<open>_create_sticky_note\<close>: \<open>position[0]\<close> and \<open>position[1]\<close> raise \<open>IndexError\<close> on a
  position with fewer than two coordinates.\<close>

definition create_sticky_note ::
  "(nat \<Rightarrow> string) \<Rightarrow> nat \<Rightarrow> section_info \<Rightarrow> nat \<Rightarrow> py_error + node" where
  "create_sticky_note uuid k sec index =
     (case s_position sec of
        x # y # _ \<Rightarrow>
          Inr \<lparr>n_id = Some (uuid k),
               n_name = Some (''Note '' @ str_int (int index + 1)),
               n_type = Some stickyNote,
               n_typeVersion = Some 1,
               n_position = Some [x - 200, y - 150],
               n_parameters =
                 Some [(''content'', JStr (''## '' @ s_title sec @ [CHR 0x0A, CHR 0x0A]
                                            @ s_description sec)),
                       (''height'', JInt 160), (''width'', JInt 240)],
               n_credentials = None, n_onError = None, n_retryOnFail = None,
               n_continueOnFail = None, n_maxTries = None, n_webhookId = None\<rparr>
      | _ \<Rightarrow> Inl IndexError)"

fun create_sticky_notes ::
  "(nat \<Rightarrow> string) \<Rightarrow> nat \<Rightarrow> nat \<Rightarrow> section_info list \<Rightarrow> py_error + (node list \<times> nat)" where
  "create_sticky_notes uuid k index [] = Inr ([], k)"
| "create_sticky_notes uuid k index (sec # secs) =
     (case create_sticky_note uuid k sec index of
        Inl e \<Rightarrow> Inl e
      | Inr note \<Rightarrow>
          (case create_sticky_notes uuid (Suc k) (Suc index) secs of
             Inl e \<Rightarrow> Inl e
           | Inr (notes, k') \<Rightarrow> Inr (note # notes, k')))"

text \<open>\<open>QUALITY_CONFIG.get('min_sticky_notes', 5)\<close>, raised to 8 for the tier \<open>complex\<close>.\<close>

definition QUALITY_CONFIG_min_sticky_notes :: int where
  "QUALITY_CONFIG_min_sticky_notes = 5"

definition target_notes :: "string \<Rightarrow> int" where
  "target_notes complexity =
     (if complexity = ''complex'' then 8 else QUALITY_CONFIG_min_sticky_notes)"

definition add_documentation ::
  "(nat \<Rightarrow> string) \<Rightarrow> nat \<Rightarrow> workflow \<Rightarrow> string \<Rightarrow> py_error + (workflow \<times> nat)" where
  "add_documentation uuid k w complexity =
     (let existing = filter (\<lambda>n. n_type n = Some stickyNote) (get_nodes w);
          notes_needed = max 0 (target_notes complexity - int (length existing))
      in if notes_needed > 0 then
           (case create_sticky_notes uuid k 0
                   (take (nat notes_needed) (identify_workflow_sections w)) of
              Inl e \<Rightarrow> Inl e
            | Inr (notes, k') \<Rightarrow>
                Inr (case w_nodes w of
                       None \<Rightarrow> w
                     | Some ns \<Rightarrow> w\<lparr>w_nodes := Some (ns @ notes)\<rparr>, k'))
         else Inr (w, k))"

definition ensure_connections :: "workflow \<Rightarrow> workflow" where
  "ensure_connections w =
     (if w_connections w = None then w\<lparr>w_connections := Some []\<rparr> else w)"

text \<open>\<open>_validate_and_refine\<close>: the repair passes in their fixed order. The last pass is
  the generator's \<open>_validate_connections\<close>.\<close>

definition validate_and_refine ::
  "(nat \<Rightarrow> string) \<Rightarrow> nat \<Rightarrow> workflow \<Rightarrow> string \<Rightarrow> py_error + (workflow \<times> nat)" where
  "validate_and_refine uuid k w complexity =
     (let (w1, k1) = fix_structure uuid k w;
          w2 = fix_parameters w1;
          w3 = inject_credentials w2;
          w4 = add_error_handling w3
      in case add_documentation uuid k1 w4 complexity of
           Inl e \<Rightarrow> Inl e
         | Inr (w5, k2) \<Rightarrow> Inr (ensure_connections w5, k2))"

text \<open>\<open>_update_prompt_with_feedback\<close>.\<close>

definition update_prompt_with_feedback :: "string \<Rightarrow> string list \<Rightarrow> string" where
  "update_prompt_with_feedback prompt feedback =
     prompt @ [CHR 0x0A, CHR 0x0A] @ ''PREVIOUS ATTEMPT FEEDBACK (MUST FIX):'' @ [CHR 0x0A]
       @ join [CHR 0x0A] (map (\<lambda>fb. ''  - '' @ fb) feedback)
       @ [CHR 0x0A, CHR 0x0A]
       @ ''CRITICAL: Address ALL feedback points above in this generation.'' @ [CHR 0x0A]"

text \<open>
  The synthesis collaborator (\<open>_generate_workflow\<close>, a call to a language model whose
  failures are caught and turned into \<open>None\<close>) is a parameter: \<open>synth a p\<close> is what the
  request of attempt \<open>a\<close> with prompt \<open>p\<close> returns. The loop of \<open>generate\<close> keeps, besides
  the variables of the source, a log of the calls it makes, so that properties about
  which calls happen can be stated.
\<close>

datatype event = Synthesis nat | Repair nat | Scoring nat | Feedback nat

record generation_result =
  g_workflow :: "workflow option"
  g_quality_score :: int
  g_quality_details :: "quality_result option"
  g_attempt :: "int option"
  g_warning :: "string option"
  g_attempts :: "int option"

record loop_state =
  prompt :: string
  best_workflow :: "workflow option"
  best_score :: int
  drawn :: nat
  log :: "event list"

definition QUALITY_CONFIG_min_quality_score :: int where
  "QUALITY_CONFIG_min_quality_score = 80"

text \<open>\<open>if not raw_workflow\<close>: \<open>None\<close> and the empty dictionary are both nothing.\<close>

definition is_empty_dict :: "workflow \<Rightarrow> bool" where
  "is_empty_dict w =
     (w_name w = None \<and> w_nodes w = None \<and> w_connections w = None \<and> w_active w = None
      \<and> w_settings w = None \<and> w_meta w = None \<and> w_other w = [])"

definition track_best :: "workflow \<Rightarrow> quality_result \<Rightarrow> loop_state \<Rightarrow> loop_state" where
  "track_best refined q st =
     (if q_score q > best_score st
      then st\<lparr>best_workflow := Some refined, best_score := q_score q\<rparr>
      else st)"

definition exhausted :: "nat \<Rightarrow> loop_state \<Rightarrow> generation_result" where
  "exhausted max_attempts st =
     \<lparr>g_workflow = best_workflow st, g_quality_score = best_score st,
      g_quality_details = None, g_attempt = None,
      g_warning = Some ''Workflow may not meet all quality standards'',
      g_attempts = Some (int max_attempts)\<rparr>"

definition accepted :: "workflow \<Rightarrow> quality_result \<Rightarrow> nat \<Rightarrow> generation_result" where
  "accepted refined q attempt =
     \<lparr>g_workflow = Some refined, g_quality_score = q_score q,
      g_quality_details = Some q, g_attempt = Some (int attempt + 1),
      g_warning = None, g_attempts = None\<rparr>"

function attempts_from ::
  "(rat \<Rightarrow> string) \<Rightarrow> (nat \<Rightarrow> string) \<Rightarrow> (nat \<Rightarrow> string \<Rightarrow> workflow option) \<Rightarrow> string
     \<Rightarrow> nat \<Rightarrow> nat \<Rightarrow> loop_state \<Rightarrow> py_error + (generation_result \<times> loop_state)" where
  "attempts_from pct uuid synth complexity max_attempts attempt st =
     (if attempt \<ge> max_attempts then Inr (exhausted max_attempts st, st)
      else
        (let st1 = st\<lparr>log := log st @ [Synthesis attempt]\<rparr> in
         case synth attempt (prompt st) of
           None \<Rightarrow> attempts_from pct uuid synth complexity max_attempts (Suc attempt) st1
         | Some raw \<Rightarrow>
             if is_empty_dict raw
             then attempts_from pct uuid synth complexity max_attempts (Suc attempt) st1
             else
               (case validate_and_refine uuid (drawn st1) raw complexity of
                  Inl e \<Rightarrow> Inl e
                | Inr (refined, k) \<Rightarrow>
                    (case validate pct refined complexity of
                       Inl e \<Rightarrow> Inl e
                     | Inr q \<Rightarrow>
                         (let st2 = track_best refined q
                                      (st1\<lparr>drawn := k,
                                           log := log st1 @ [Repair attempt, Scoring attempt]\<rparr>)
                          in if q_valid q \<and> q_score q \<ge> QUALITY_CONFIG_min_quality_score
                             then Inr (accepted refined q attempt, st2)
                             else if Suc attempt < max_attempts then
                               (case generate_feedback pct q of
                                  Inl e \<Rightarrow> Inl e
                                | Inr feedback \<Rightarrow>
                                    attempts_from pct uuid synth complexity max_attempts
                                      (Suc attempt)
                                      (st2\<lparr>prompt :=
                                             update_prompt_with_feedback (prompt st2) feedback,
                                           log := log st2 @ [Feedback attempt]\<rparr>))
                             else attempts_from pct uuid synth complexity max_attempts
                                    (Suc attempt) st2)))))"
  by pat_completeness auto
termination
  by (relation "measure (\<lambda>(pct, uuid, synth, complexity, max_attempts, attempt, st).
                    max_attempts - attempt)") auto

declare attempts_from.simps [simp del]

text \<open>
  \<open>EnhancedWorkflowGenerator.generate\<close> from the loop on. What comes before the loop
  (the context taken from the expert templates, the text of the first prompt) is the
  argument \<open>prompt0\<close>. The result is the returned dictionary together with the log.
\<close>

definition initial_state :: "string \<Rightarrow> loop_state" where
  "initial_state prompt0 =
     \<lparr>prompt = prompt0, best_workflow = None, best_score = 0, drawn = 0, log = []\<rparr>"

definition generate ::
  "(rat \<Rightarrow> string) \<Rightarrow> (nat \<Rightarrow> string) \<Rightarrow> (nat \<Rightarrow> string \<Rightarrow> workflow option) \<Rightarrow> string
     \<Rightarrow> string \<Rightarrow> py_error + (generation_result \<times> event list)" where
  "generate pct uuid synth prompt0 complexity =
     (case attempts_from pct uuid synth complexity max_generation_attempts 0
             (initial_state prompt0) of
        Inl e \<Rightarrow> Inl e
      | Inr (res, st) \<Rightarrow> Inr (res, log st))"

text \<open>A collaborator that returns nothing on every request.\<close>

definition returns_nothing :: "(nat \<Rightarrow> string \<Rightarrow> workflow option) \<Rightarrow> bool" where
  "returns_nothing synth =
     (\<forall>a p. case synth a p of None \<Rightarrow> True | Some w \<Rightarrow> is_empty_dict w)"

section \<open>Fully populated graphs\<close>








section \<open>Graph Builder (workflow_generator.py)\<close>

text \<open>
  The requirements record. A flag is \<open>True\<close> when the dictionary holds a true value under
  its key (the llm service sets them to \<open>True\<close> or \<open>False\<close>), a value with a default is
  \<open>None\<close> when its key is absent.
\<close>

record requirements =
  r_trigger :: "string option"
  r_needs_auth :: bool
  r_needs_validation :: bool
  r_needs_duplicate_check :: bool
  r_needs_transformation :: bool
  r_needs_scoring :: bool
  r_has_branching :: bool
  r_has_loops :: bool
  r_needs_error_handling :: bool
  r_needs_retry_logic :: bool
  r_num_outputs :: "int option"
  r_needs_logging :: bool
  r_needs_notification :: bool
  r_needs_error_alerts :: bool
  r_outputs :: "string list option"
  r_database :: "string option"
  r_webhook_path :: "string option"
  r_schedule_frequency :: "string option"

definition position_x :: int where "position_x = 240"
definition position_y :: int where "position_y = 300"
definition spacing_x :: int where "spacing_x = 220"
definition spacing_y :: int where "spacing_y = 150"

definition calculate_complexity :: "requirements \<Rightarrow> int" where
  "calculate_complexity r =
     min (1
          + (if r_trigger r = Some ''webhook'' then 1 else 0)
          + (if r_needs_auth r then 1 else 0)
          + (if r_needs_validation r then 2 else 0)
          + (if r_needs_duplicate_check r then 2 else 0)
          + (if r_needs_transformation r then 1 else 0)
          + (if r_needs_scoring r then 2 else 0)
          + (if r_has_branching r then 2 else 0)
          + (if r_has_loops r then 3 else 0)
          + (if r_needs_error_handling r then 2 else 0)
          + (if r_needs_retry_logic r then 2 else 0)
          + (case r_num_outputs r of None \<Rightarrow> 1 | Some n \<Rightarrow> n)) 10"

text \<open>
  The JavaScript texts that the builder stores under \<open>functionCode\<close> are string literals
  of many lines which nothing in the program reads; each is kept as its first line.
\<close>

definition code_validate_api_key :: string where
  "code_validate_api_key = ''// Validate API key from header''"

definition code_validate_data :: string where
  "code_validate_data = ''// Comprehensive data validation''"

definition code_log_validation_error :: string where
  "code_log_validation_error = ''console.error('Validation failed:', $json.validation.errors);''"

definition code_scoring :: string where
  "code_scoring = ''// Scoring algorithm''"

definition code_log_error :: string where
  "code_log_error = ''const error = $input.item.json;''"

text \<open>A node as the builder writes it: \<open>typeVersion\<close> 1, no error policy.\<close>

definition new_node ::
  "string \<Rightarrow> string \<Rightarrow> string \<Rightarrow> int \<times> int \<Rightarrow> (string \<times> json) list \<Rightarrow> node" where
  "new_node i nm ty pos params =
     \<lparr>n_id = Some i, n_name = Some nm, n_type = Some ty, n_typeVersion = Some 1,
      n_position = Some [fst pos, snd pos], n_parameters = Some params,
      n_credentials = None, n_onError = None, n_retryOnFail = None,
      n_continueOnFail = None, n_maxTries = None, n_webhookId = None\<rparr>"

definition credential_ref :: "string \<Rightarrow> string \<Rightarrow> json" where
  "credential_ref i nm = JObj [(''id'', JStr i), (''name'', JStr nm)]"

text \<open>Writing \<open>d[k] = v\<close>: in place for a key that is there, at the end for a new one.\<close>

definition dict_set :: "string \<Rightarrow> 'v \<Rightarrow> (string \<times> 'v) list \<Rightarrow> (string \<times> 'v) list" where
  "dict_set k v d =
     (if has_key k d then map (\<lambda>(k', v'). if k' = k then (k', v) else (k', v')) d
      else d @ [(k, v)])"

definition and_then :: "'e + 'a \<Rightarrow> ('a \<Rightarrow> 'e + 'b) \<Rightarrow> 'e + 'b" where
  "and_then m f = (case m of Inl e \<Rightarrow> Inl e | Inr x \<Rightarrow> f x)"

definition main_conn :: "string \<Rightarrow> conn" where
  "main_conn target = \<lparr>c_node = target, c_type = ''main'', c_index = 0\<rparr>"

text \<open>\<open>_connect_nodes\<close>.\<close>

definition connect_nodes :: "connections \<Rightarrow> node \<Rightarrow> node \<Rightarrow> nat \<Rightarrow> py_error + connections" where
  "connect_nodes cs from_node to_node output_index =
     and_then (need ''name'' (n_name from_node)) (\<lambda>from_name.
     and_then (need ''name'' (n_name to_node)) (\<lambda>to_name.
       (let cs1 = (if has_key from_name cs then cs
                   else dict_set from_name [(''main'', [[]])] cs)
        in and_then (subscript cs1 from_name) (\<lambda>data.
           and_then (subscript data ''main'') (\<lambda>outs.
             (let padded = outs @ replicate (Suc output_index - length outs) [];
                  filled = padded[output_index := padded ! output_index @ [main_conn to_name]]
              in Inr (dict_set from_name (dict_set ''main'' filled data) cs1)))))))"

text \<open>\<open>_merge_connections\<close>: the loops over the items of \<open>source\<close>, of a connection
  record, and of a list of outputs.\<close>

fun merge_outputs :: "conn list list \<Rightarrow> conn list list \<Rightarrow> conn list list" where
  "merge_outputs ts [] = ts"
| "merge_outputs [] ss = ss"
| "merge_outputs (t # ts) (s # ss) = (t @ s) # merge_outputs ts ss"

definition merge_conn_data ::
  "(string \<times> conn list list) list \<Rightarrow> (string \<times> conn list list) list
     \<Rightarrow> (string \<times> conn list list) list" where
  "merge_conn_data target_data source_data =
     fold (\<lambda>(conn_type, conn_list) td.
             case map_of td conn_type of
               None \<Rightarrow> dict_set conn_type conn_list td
             | Some existing \<Rightarrow> dict_set conn_type (merge_outputs existing conn_list) td)
       source_data target_data"

definition merge_connections :: "connections \<Rightarrow> connections \<Rightarrow> connections" where
  "merge_connections target source =
     fold (\<lambda>(node_name, conn_data) t.
             case map_of t node_name of
               None \<Rightarrow> dict_set node_name conn_data t
             | Some existing \<Rightarrow> dict_set node_name (merge_conn_data existing conn_data) t)
       source target"

text \<open>
  The \<open>_create_...\<close> functions. The layout cursor \<open>position\<close> is a list of two integers,
  kept as a pair. Each function takes the number \<open>k\<close> of identifiers drawn so far and
  returns the new number with its result.
\<close>

definition create_trigger_node ::
  "(nat \<Rightarrow> string) \<Rightarrow> nat \<Rightarrow> requirements \<Rightarrow> int \<times> int \<Rightarrow> node \<times> (int \<times> int) \<times> nat" where
  "create_trigger_node uuid k r position =
     (let trigger_type = (case r_trigger r of None \<Rightarrow> ''webhook'' | Some t \<Rightarrow> t);
          node_id = uuid k;
          new_position = (fst position + spacing_x, snd position)
      in if trigger_type = ''webhook'' then
           ((new_node node_id ''Webhook Trigger'' ''n8n-nodes-base.webhook'' position
               [(''httpMethod'', JStr ''POST''),
                (''path'', JStr (case r_webhook_path r of
                                   None \<Rightarrow> ''workflow-trigger'' | Some p \<Rightarrow> p)),
                (''responseMode'', JStr ''onReceived''),
                (''options'', JObj [])])
              \<lparr>n_webhookId := Some (uuid (Suc k))\<rparr>,
            new_position, Suc (Suc k))
         else if trigger_type = ''schedule'' then
           (new_node node_id ''Schedule Trigger'' ''n8n-nodes-base.scheduleTrigger'' position
              [(''rule'', JObj [(''interval'',
                  JList [JObj [(''field'', JStr (case r_schedule_frequency r of
                                                    None \<Rightarrow> ''hour'' | Some f \<Rightarrow> f))]])])],
            new_position, Suc k)
         else if trigger_type = ''email'' then
           ((new_node node_id ''Email Trigger'' ''n8n-nodes-base.emailReadImap'' position
               [(''mailbox'', JStr ''INBOX''),
                (''options'', JObj [(''allowUnauthorizedCerts'', JBool False)])])
              \<lparr>n_credentials :=
                 Some [(''imap'', credential_ref ''1'' ''IMAP Account (to be configured)'')]\<rparr>,
            new_position, Suc k)
         else
           (new_node node_id ''Manual Trigger'' ''n8n-nodes-base.manualTrigger'' position [],
            new_position, Suc k))"

definition create_auth_node ::
  "(nat \<Rightarrow> string) \<Rightarrow> nat \<Rightarrow> int \<times> int \<Rightarrow> node \<times> (int \<times> int) \<times> nat" where
  "create_auth_node uuid k position =
     (new_node (uuid k) ''Validate API Key'' ''n8n-nodes-base.function'' position
        [(''functionCode'', JStr code_validate_api_key)],
      (fst position + spacing_x, snd position), Suc k)"

text \<open>\<open>_create_validation_flow\<close> returns the nodes, the connections among them, the new
  position, the success node and the error node.\<close>

definition create_validation_flow ::
  "(nat \<Rightarrow> string) \<Rightarrow> nat \<Rightarrow> int \<times> int
     \<Rightarrow> py_error + (node list \<times> connections \<times> (int \<times> int) \<times> node \<times> node \<times> nat)" where
  "create_validation_flow uuid k position =
     (let validate_node =
            new_node (uuid k) ''Validate Data'' ''n8n-nodes-base.function'' position
              [(''functionCode'', JStr code_validate_data)];
          position1 = (fst position + spacing_x, snd position);
          if_node =
            new_node (uuid (k + 1)) ''Is Valid?'' ''n8n-nodes-base.if'' position1
              [(''conditions'', JObj [(''boolean'',
                  JList [JObj [(''value1'', JStr ''={{$json.validation.is_valid}}''),
                               (''value2'', JBool True)]])])];
          error_position = (fst position1 + spacing_x, snd position1 + spacing_y);
          error_node =
            new_node (uuid (k + 2)) ''Log Validation Error'' ''n8n-nodes-base.function''
              error_position [(''functionCode'', JStr code_log_validation_error)];
          if_name = ''Is Valid?''
      in and_then (connect_nodes [] validate_node if_node 0) (\<lambda>cs.
           (let cs1 = (if has_key if_name cs then cs
                       else dict_set if_name [(''main'', [[], []])] cs)
            in and_then (subscript cs1 if_name) (\<lambda>data.
               and_then (subscript data ''main'') (\<lambda>outs.
                 if length outs \<le> 1 then Inl IndexError
                 else Inr ([validate_node, if_node, error_node],
                           dict_set if_name
                             (dict_set ''main''
                                (outs[1 := [main_conn ''Log Validation Error'']]) data) cs1,
                           (fst position1 + spacing_x, snd position1),
                           if_node, error_node, k + 3))))))"

definition database_of :: "requirements \<Rightarrow> string" where
  "database_of r = (case r_database r of None \<Rightarrow> ''postgres'' | Some d \<Rightarrow> d)"

definition create_duplicate_check_flow ::
  "(nat \<Rightarrow> string) \<Rightarrow> nat \<Rightarrow> requirements \<Rightarrow> int \<times> int
     \<Rightarrow> py_error + (node list \<times> connections \<times> (int \<times> int) \<times> node \<times> nat)" where
  "create_duplicate_check_flow uuid k r position =
     (let database = database_of r;
          check_node =
            (new_node (uuid k) ''Check for Duplicates'' (''n8n-nodes-base.'' @ database)
               position
               [(''operation'', JStr ''executeQuery''),
                (''query'', JStr ''SELECT id FROM records WHERE email = $1 LIMIT 1''),
                (''additionalFields'', JObj [(''queryParameters'', JStr ''={{$json.email}}'')])])
              \<lparr>n_credentials :=
                 Some [(database, credential_ref ''1''
                          (title database @ '' Database (to be configured)''))]\<rparr>;
          position1 = (fst position + spacing_x, snd position);
          if_node =
            new_node (uuid (k + 1)) ''Is New Record?'' ''n8n-nodes-base.if'' position1
              [(''conditions'', JObj [(''number'',
                  JList [JObj [(''value1'', JStr ''={{$json.length || 0}}''),
                               (''operation'', JStr ''equal''),
                               (''value2'', JInt 0)]])])]
      in and_then (connect_nodes [] check_node if_node 0) (\<lambda>cs.
           Inr ([check_node, if_node], cs, (fst position1 + spacing_x, snd position1),
                if_node, k + 2)))"

definition create_scoring_node ::
  "(nat \<Rightarrow> string) \<Rightarrow> nat \<Rightarrow> int \<times> int \<Rightarrow> node \<times> (int \<times> int) \<times> nat" where
  "create_scoring_node uuid k position =
     (new_node (uuid k) ''Calculate Score'' ''n8n-nodes-base.function'' position
        [(''functionCode'', JStr code_scoring)],
      (fst position + spacing_x, snd position), Suc k)"

definition priority_values :: "string \<Rightarrow> string \<Rightarrow> (string \<times> json) list" where
  "priority_values level speed =
     [(''values'', JObj [(''string'',
         JList [JObj [(''name'', JStr ''priority_level''), (''value'', JStr level)],
                JObj [(''name'', JStr ''processing_speed''), (''value'', JStr speed)]])])]"

definition switch_rule :: "int \<Rightarrow> int \<Rightarrow> json" where
  "switch_rule threshold out =
     JObj [(''value1'', JStr ''={{$json.score}}''), (''operation'', JStr ''largerEqual''),
           (''value2'', JInt threshold), (''output'', JInt out)]"

definition create_branching_flow ::
  "(nat \<Rightarrow> string) \<Rightarrow> nat \<Rightarrow> requirements \<Rightarrow> int \<times> int
     \<Rightarrow> py_error + (node list \<times> connections \<times> (int \<times> int) \<times> node \<times> nat)" where
  "create_branching_flow uuid k r position =
     (let switch_node =
            new_node (uuid k) ''Route by Priority'' ''n8n-nodes-base.switch'' position
              [(''mode'', JStr ''rules''),
               (''rules'', JObj [(''rules'', JList [switch_rule 80 0, switch_rule 50 1])]),
               (''fallbackOutput'', JInt 2)];
          high_node =
            new_node (uuid (k + 1)) ''High Priority Processing'' ''n8n-nodes-base.set''
              (fst position + spacing_x, snd position - spacing_y)
              (priority_values ''high'' ''immediate'');
          med_node =
            new_node (uuid (k + 2)) ''Medium Priority Processing'' ''n8n-nodes-base.set''
              (fst position + spacing_x, snd position)
              (priority_values ''medium'' ''standard'');
          low_node =
            new_node (uuid (k + 3)) ''Low Priority Processing'' ''n8n-nodes-base.set''
              (fst position + spacing_x, snd position + spacing_y)
              (priority_values ''low'' ''batched'');
          cs0 = dict_set ''Route by Priority''
                  [(''main'', [[main_conn ''High Priority Processing''],
                               [main_conn ''Medium Priority Processing''],
                               [main_conn ''Low Priority Processing'']])] [];
          merge_pos = (fst position + spacing_x * 2, snd position);
          merge_node =
            new_node (uuid (k + 4)) ''Merge Paths'' ''n8n-nodes-base.merge'' merge_pos
              [(''mode'', JStr ''append'')]
      in and_then (connect_nodes cs0 high_node merge_node 0) (\<lambda>cs1.
         and_then (connect_nodes cs1 med_node merge_node 0) (\<lambda>cs2.
         and_then (connect_nodes cs2 low_node merge_node 0) (\<lambda>cs3.
           Inr ([switch_node, high_node, med_node, low_node, merge_node], cs3,
                (fst merge_pos + spacing_x, snd position), merge_node, k + 5)))))"

definition create_action_nodes ::
  "(nat \<Rightarrow> string) \<Rightarrow> nat \<Rightarrow> requirements \<Rightarrow> int \<times> int
     \<Rightarrow> node \<times> connections \<times> (int \<times> int) \<times> nat" where
  "create_action_nodes uuid k r position =
     (let outputs = (case r_outputs r of None \<Rightarrow> [''email''] | Some os \<Rightarrow> os);
          primary_output = (case outputs of [] \<Rightarrow> ''email'' | out # _ \<Rightarrow> out);
          database = database_of r;
          node =
            (if primary_output = ''email'' then
               (new_node (uuid k) ''Send Email'' ''n8n-nodes-base.gmail'' position
                  [(''resource'', JStr ''message''), (''operation'', JStr ''send''),
                   (''sendTo'', JStr ''={{$json.email}}''),
                   (''subject'', JStr ''={{$json.subject || 'Workflow Notification'}}''),
                   (''message'', JStr ''={{$json.body || $json.message}}'')])
                 \<lparr>n_credentials :=
                    Some [(''gmailOAuth2'',
                           credential_ref ''1'' ''Gmail account (to be configured)'')]\<rparr>
             else if primary_output = ''slack'' then
               (new_node (uuid k) ''Post to Slack'' ''n8n-nodes-base.slack'' position
                  [(''resource'', JStr ''message''), (''operation'', JStr ''post''),
                   (''channel'', JStr ''#general''), (''text'', JStr ''={{$json.message}}'')])
                 \<lparr>n_credentials :=
                    Some [(''slackApi'', credential_ref ''2'' ''Slack API (to be configured)'')]\<rparr>
             else if primary_output = ''database'' then
               (new_node (uuid k) ''Save to Database'' (''n8n-nodes-base.'' @ database) position
                  [(''operation'', JStr ''insert''), (''table'', JStr ''workflow_results'')])
                 \<lparr>n_credentials :=
                    Some [(database, credential_ref ''1''
                             (title database @ '' (to be configured)''))]\<rparr>
             else
               new_node (uuid k) ''Send to Webhook'' ''n8n-nodes-base.httpRequest'' position
                 [(''method'', JStr ''POST''), (''url'', JStr ''={{$json.webhook_url}}''),
                  (''options'', JObj [])])
      in (node, [], (fst position + spacing_x, snd position), Suc k))"

definition create_logging_node ::
  "(nat \<Rightarrow> string) \<Rightarrow> nat \<Rightarrow> requirements \<Rightarrow> int \<times> int \<Rightarrow> node \<times> (int \<times> int) \<times> nat" where
  "create_logging_node uuid k r position =
     (let database = database_of r
      in ((new_node (uuid k) ''Log to Database'' (''n8n-nodes-base.'' @ database) position
             [(''operation'', JStr ''insert''), (''table'', JStr ''workflow_logs''),
              (''columns'', JStr ''workflow_id,execution_id,data,timestamp''),
              (''additionalFields'', JObj [])])
            \<lparr>n_credentials :=
               Some [(database, credential_ref ''1''
                        (title database @ '' (to be configured)''))]\<rparr>,
          (fst position + spacing_x, snd position), Suc k))"

text \<open>
  \<open>_create_notification_nodes\<close> tests \<open>"slack" in outputs or "notification" in
  requirements.get("needs_notification", "").lower()\<close>. It is called when the flag is
  true, and \<open>True\<close> has no method \<open>lower\<close>: without \<open>slack\<close> among the outputs the call
  raises \<open>AttributeError\<close>. The text of the Slack message starts with the three bytes of
  a check mark in UTF-8.
\<close>

definition create_notification_nodes ::
  "(nat \<Rightarrow> string) \<Rightarrow> nat \<Rightarrow> requirements \<Rightarrow> int \<times> int
     \<Rightarrow> py_error + (node list \<times> connections \<times> (int \<times> int) \<times> nat)" where
  "create_notification_nodes uuid k r position =
     (let outputs = (case r_outputs r of None \<Rightarrow> [] | Some os \<Rightarrow> os)
      in if ''slack'' \<in> set outputs then
           Inr ([(new_node (uuid k) ''Notify Slack'' ''n8n-nodes-base.slack'' position
                    [(''resource'', JStr ''message''), (''operation'', JStr ''post''),
                     (''channel'', JStr ''#notifications''),
                     (''text'', JStr ([CHR 0xE2, CHR 0x9C, CHR 0x85]
                        @ '' Workflow completed successfully for: ''
                        @ ''{{$json.name || $json.email}}''))])
                   \<lparr>n_credentials :=
                      Some [(''slackApi'',
                             credential_ref ''2'' ''Slack API (to be configured)'')]\<rparr>],
                [], (fst position + spacing_x, snd position), Suc k)
         else if r_needs_notification r then Inl AttributeError
         else Inr ([], [], (fst position + spacing_x, snd position), k))"

text \<open>\<open>_create_error_workflow\<close>; the subject of the alert starts with the four bytes of
  a siren in UTF-8.\<close>

definition create_error_workflow ::
  "(nat \<Rightarrow> string) \<Rightarrow> nat \<Rightarrow> requirements \<Rightarrow> py_error + (node list \<times> connections \<times> nat)" where
  "create_error_workflow uuid k r =
     (let error_trigger =
            new_node (uuid k) ''Error Trigger'' ''n8n-nodes-base.errorTrigger''
              (position_x, position_y + 400) [];
          log_error =
            new_node (uuid (k + 1)) ''Log Error Details'' ''n8n-nodes-base.function''
              (position_x + spacing_x, position_y + 400)
              [(''functionCode'', JStr code_log_error)]
      in and_then (connect_nodes [] error_trigger log_error 0) (\<lambda>cs.
           if r_needs_error_alerts r then
             (let alert_node =
                    (new_node (uuid (k + 2)) ''Alert Admin'' ''n8n-nodes-base.gmail''
                       (position_x + spacing_x * 2, position_y + 400)
                       [(''resource'', JStr ''message''), (''operation'', JStr ''send''),
                        (''sendTo'', JStr ''admin@company.com''),
                        (''subject'', JStr ([CHR 0xF0, CHR 0x9F, CHR 0x9A, CHR 0xA8]
                           @ '' Workflow Error Alert'')),
                        (''message'', JStr (''Error in workflow {{$json.workflow_id}}: ''
                           @ ''{{$json.error_message}}''))])
                      \<lparr>n_credentials :=
                         Some [(''gmailOAuth2'',
                                credential_ref ''1'' ''Gmail account (to be configured)'')]\<rparr>
              in and_then (connect_nodes cs log_error alert_node 0) (\<lambda>cs1.
                   Inr ([error_trigger, log_error, alert_node], cs1, k + 3)))
           else Inr ([error_trigger, log_error], cs, k + 2)))"

text \<open>\<open>s.split()\<close> on ASCII text: the words between runs of white space.\<close>

definition is_space :: "char \<Rightarrow> bool" where
  "is_space c =
     ((9 \<le> (of_char c :: nat) \<and> (of_char c :: nat) \<le> 13)
      \<or> (28 \<le> (of_char c :: nat) \<and> (of_char c :: nat) \<le> 32))"

fun words_from :: "string \<Rightarrow> string \<Rightarrow> string list" where
  "words_from acc [] = (if acc = [] then [] else [acc])"
| "words_from acc (c # cs) =
     (if is_space c then (if acc = [] then words_from [] cs else acc # words_from [] cs)
      else words_from (acc @ [c]) cs)"

definition split_ws :: "string \<Rightarrow> string list" where
  "split_ws s = words_from [] s"

text \<open>\<open>_generate_workflow_name\<close>; a conversation is given by its initial request.
  \<open>requirements.get("outputs", ["processing"])[0]\<close> raises \<open>IndexError\<close> on an empty
  list of outputs.\<close>

definition generate_workflow_name :: "requirements \<Rightarrow> string option \<Rightarrow> py_error + string" where
  "generate_workflow_name r conversation =
     (case conversation of
        Some request \<Rightarrow> Inr (title (join '' '' (take 5 (split_ws request))) @ '' Workflow'')
      | None \<Rightarrow>
          (let trigger = (case r_trigger r of None \<Rightarrow> ''workflow'' | Some t \<Rightarrow> t)
           in case (case r_outputs r of None \<Rightarrow> [''processing''] | Some os \<Rightarrow> os) of
                [] \<Rightarrow> Inl IndexError
              | action # _ \<Rightarrow> Inr (title trigger @ '' to '' @ title action @ '' Workflow'')))"

text \<open>
  The local variables of \<open>WorkflowGenerator.generate\<close>, and one function for each of its
  numbered blocks. A block that is skipped returns the variables as they are.
\<close>

record build =
  b_nodes :: "node list"
  b_connections :: connections
  b_position :: "int \<times> int"
  b_last_node :: node
  b_drawn :: nat

definition step_trigger :: "(nat \<Rightarrow> string) \<Rightarrow> requirements \<Rightarrow> build" where
  "step_trigger uuid r =
     (case create_trigger_node uuid 0 r (position_x, position_y) of
        (trigger_node, position, k) \<Rightarrow>
          \<lparr>b_nodes = [trigger_node], b_connections = [], b_position = position,
           b_last_node = trigger_node, b_drawn = k\<rparr>)"

definition step_auth :: "(nat \<Rightarrow> string) \<Rightarrow> requirements \<Rightarrow> build \<Rightarrow> py_error + build" where
  "step_auth uuid r b =
     (if r_needs_auth r then
        (case create_auth_node uuid (b_drawn b) (b_position b) of
           (auth_node, position, k) \<Rightarrow>
             and_then (connect_nodes (b_connections b) (b_last_node b) auth_node 0) (\<lambda>cs.
               Inr \<lparr>b_nodes = b_nodes b @ [auth_node], b_connections = cs,
                    b_position = position, b_last_node = auth_node, b_drawn = k\<rparr>))
      else Inr b)"

text \<open>A flow of several nodes is appended, its connections are merged, and the last
  node is connected to the first node of the flow (\<open>IndexError\<close> if there is none).\<close>

definition attach_flow ::
  "build \<Rightarrow> node list \<Rightarrow> connections \<Rightarrow> int \<times> int \<Rightarrow> node option \<Rightarrow> nat \<Rightarrow> py_error + build" where
  "attach_flow b flow_nodes flow_conns position new_last k =
     (case flow_nodes of
        [] \<Rightarrow> Inl IndexError
      | first # _ \<Rightarrow>
          and_then (connect_nodes (merge_connections (b_connections b) flow_conns)
                      (b_last_node b) first 0) (\<lambda>cs.
            Inr \<lparr>b_nodes = b_nodes b @ flow_nodes, b_connections = cs,
                 b_position = position,
                 b_last_node = (case new_last of None \<Rightarrow> b_last_node b | Some n \<Rightarrow> n),
                 b_drawn = k\<rparr>))"

definition step_validation :: "(nat \<Rightarrow> string) \<Rightarrow> requirements \<Rightarrow> build \<Rightarrow> py_error + build" where
  "step_validation uuid r b =
     (if r_needs_validation r then
        and_then (create_validation_flow uuid (b_drawn b) (b_position b))
          (\<lambda>(validation_nodes, validation_conns, position, success_node, error_node, k).
             attach_flow b validation_nodes validation_conns position (Some success_node) k)
      else Inr b)"

definition step_duplicate_check ::
  "(nat \<Rightarrow> string) \<Rightarrow> requirements \<Rightarrow> build \<Rightarrow> py_error + build" where
  "step_duplicate_check uuid r b =
     (if r_needs_duplicate_check r then
        and_then (create_duplicate_check_flow uuid (b_drawn b) r (b_position b))
          (\<lambda>(dup_nodes, dup_conns, position, new_node, k).
             attach_flow b dup_nodes dup_conns position (Some new_node) k)
      else Inr b)"

definition step_scoring :: "(nat \<Rightarrow> string) \<Rightarrow> requirements \<Rightarrow> build \<Rightarrow> py_error + build" where
  "step_scoring uuid r b =
     (if r_needs_scoring r then
        (case create_scoring_node uuid (b_drawn b) (b_position b) of
           (scoring_node, position, k) \<Rightarrow>
             and_then (connect_nodes (b_connections b) (b_last_node b) scoring_node 0) (\<lambda>cs.
               Inr \<lparr>b_nodes = b_nodes b @ [scoring_node], b_connections = cs,
                    b_position = position, b_last_node = scoring_node, b_drawn = k\<rparr>))
      else Inr b)"

definition step_branching :: "(nat \<Rightarrow> string) \<Rightarrow> requirements \<Rightarrow> build \<Rightarrow> py_error + build" where
  "step_branching uuid r b =
     (if r_has_branching r \<or> calculate_complexity r > 6 then
        and_then (create_branching_flow uuid (b_drawn b) r (b_position b))
          (\<lambda>(branch_nodes, branch_conns, position, merge_node, k).
             attach_flow b branch_nodes branch_conns position (Some merge_node) k)
      else Inr b)"

definition step_action :: "(nat \<Rightarrow> string) \<Rightarrow> requirements \<Rightarrow> build \<Rightarrow> py_error + build" where
  "step_action uuid r b =
     (case create_action_nodes uuid (b_drawn b) r (b_position b) of
        (action_nodes, action_conns, position, k) \<Rightarrow>
          and_then (connect_nodes (merge_connections (b_connections b) action_conns)
                      (b_last_node b) action_nodes 0) (\<lambda>cs.
            Inr \<lparr>b_nodes = b_nodes b @ [action_nodes], b_connections = cs,
                 b_position = position, b_last_node = action_nodes, b_drawn = k\<rparr>))"

definition step_logging :: "(nat \<Rightarrow> string) \<Rightarrow> requirements \<Rightarrow> build \<Rightarrow> py_error + build" where
  "step_logging uuid r b =
     (if r_needs_logging r \<or> calculate_complexity r > 5 then
        (case create_logging_node uuid (b_drawn b) r (b_position b) of
           (log_node, position, k) \<Rightarrow>
             and_then (connect_nodes (b_connections b) (b_last_node b) log_node 0) (\<lambda>cs.
               Inr \<lparr>b_nodes = b_nodes b @ [log_node], b_connections = cs,
                    b_position = position, b_last_node = log_node, b_drawn = k\<rparr>))
      else Inr b)"

definition step_notification ::
  "(nat \<Rightarrow> string) \<Rightarrow> requirements \<Rightarrow> build \<Rightarrow> py_error + build" where
  "step_notification uuid r b =
     (if r_needs_notification r then
        and_then (create_notification_nodes uuid (b_drawn b) r (b_position b))
          (\<lambda>(notif_nodes, notif_conns, position, k).
             attach_flow b notif_nodes notif_conns position None k)
      else Inr b)"

definition step_error_handling ::
  "(nat \<Rightarrow> string) \<Rightarrow> requirements \<Rightarrow> build \<Rightarrow> py_error + build" where
  "step_error_handling uuid r b =
     (if r_needs_error_handling r then
        and_then (create_error_workflow uuid (b_drawn b) r)
          (\<lambda>(error_nodes, error_conns, k).
             Inr (b\<lparr>b_nodes := b_nodes b @ error_nodes,
                    b_connections := merge_connections (b_connections b) error_conns,
                    b_drawn := k\<rparr>))
      else Inr b)"

text \<open>\<open>WorkflowGenerator.generate\<close>; \<open>conversation\<close> is the initial request of the
  conversation state, when one is passed.\<close>

definition generate_from_requirements ::
  "(nat \<Rightarrow> string) \<Rightarrow> requirements \<Rightarrow> string option \<Rightarrow> py_error + workflow" where
  "generate_from_requirements uuid r conversation =
     and_then (step_auth uuid r (step_trigger uuid r)) (\<lambda>b2.
     and_then (step_validation uuid r b2) (\<lambda>b3.
     and_then (step_duplicate_check uuid r b3) (\<lambda>b4.
     and_then (step_scoring uuid r b4) (\<lambda>b5.
     and_then (step_branching uuid r b5) (\<lambda>b6.
     and_then (step_action uuid r b6) (\<lambda>b7.
     and_then (step_logging uuid r b7) (\<lambda>b8.
     and_then (step_notification uuid r b8) (\<lambda>b9.
     and_then (step_error_handling uuid r b9) (\<lambda>b10.
     and_then (generate_workflow_name r conversation) (\<lambda>workflow_name.
       Inr \<lparr>w_name = Some workflow_name,
            w_nodes = Some (b_nodes b10),
            w_connections = Some (b_connections b10),
            w_active = Some False,
            w_settings = Some [(''executionOrder'', JStr ''v1'')],
            w_meta = Some [(''generatedBy'', JStr ''n8n-flow-generator''),
                           (''version'', JStr ''2.0''),
                           (''complexity'', JInt (calculate_complexity r)),
                           (''nodeCount'', JInt (int (length (b_nodes b10))))],
            w_other = []\<rparr>))))))))))"

section \<open>Properties of generated graphs\<close>

text \<open>A graph without the values drawn at random: the node identifiers and the
  webhook identifier.\<close>

definition erase_ids :: "node \<Rightarrow> node" where
  "erase_ids n = n\<lparr>n_id := None, n_webhookId := None\<rparr>"

definition without_ids :: "workflow \<Rightarrow> workflow" where
  "without_ids w = map_nodes erase_ids w"

text \<open>The invariants of the data model: the display names of the nodes are there and
  pairwise distinct, and every connection goes from a node of the graph to a node of
  the graph.\<close>

definition refers_to :: "string option set \<Rightarrow> connections \<Rightarrow> bool" where
  "refers_to names cs =
     (\<forall>(source_name, data) \<in> set cs.
        Some source_name \<in> names
        \<and> (\<forall>(conn_type, outs) \<in> set data.
              \<forall>c \<in> set (concat outs). Some (c_node c) \<in> names))"

definition graph_invariants :: "workflow \<Rightarrow> bool" where
  "graph_invariants w =
     (let names = map n_name (get_nodes w)
      in distinct names \<and> None \<notin> set names
         \<and> refers_to (set names) (case w_connections w of None \<Rightarrow> [] | Some cs \<Rightarrow> cs))"

text \<open>The variables of the builder without the values drawn at random, and the relations
  between two runs that differ in those values only.\<close>

definition erase_build :: "build \<Rightarrow> build" where
  "erase_build b =
     b\<lparr>b_nodes := map erase_ids (b_nodes b), b_last_node := erase_ids (b_last_node b),
       b_drawn := 0\<rparr>"

definition same_shape :: "py_error + build \<Rightarrow> py_error + build \<Rightarrow> bool" where
  "same_shape m m' = (map_sum id erase_build m = map_sum id erase_build m')"

definition same_graph :: "py_error + workflow \<Rightarrow> py_error + workflow \<Rightarrow> bool" where
  "same_graph m m' = (map_sum id without_ids m = map_sum id without_ids m')"

text \<open>The invariant of the builder's variables: the names of the nodes so far are taken,
  in order, from the list of names allowed so far; the connections refer to nodes that
  are there; so does the last node.\<close>

definition outs_ok :: "string option set \<Rightarrow> conn list list \<Rightarrow> bool" where
  "outs_ok names outs = (\<forall>c \<in> set (concat outs). Some (c_node c) \<in> names)"

definition data_ok :: "string option set \<Rightarrow> (string \<times> conn list list) list \<Rightarrow> bool" where
  "data_ok names data = (\<forall>(conn_type, outs) \<in> set data. outs_ok names outs)"

definition build_inv :: "string list \<Rightarrow> build \<Rightarrow> bool" where
  "build_inv allowed b =
     (subseq (map n_name (b_nodes b)) (map Some allowed)
      \<and> refers_to (set (map n_name (b_nodes b))) (b_connections b)
      \<and> n_name (b_last_node b) \<in> set (map n_name (b_nodes b)))"

definition seg_trigger :: "string list" where
  "seg_trigger = [''Webhook Trigger'', ''Schedule Trigger'', ''Email Trigger'', ''Manual Trigger'']"
definition seg_validation :: "string list" where
  "seg_validation = [''Validate Data'', ''Is Valid?'', ''Log Validation Error'']"
definition seg_duplicate :: "string list" where
  "seg_duplicate = [''Check for Duplicates'', ''Is New Record?'']"
definition seg_branching :: "string list" where
  "seg_branching = [''Route by Priority'', ''High Priority Processing'',
     ''Medium Priority Processing'', ''Low Priority Processing'', ''Merge Paths'']"
definition seg_action :: "string list" where
  "seg_action = [''Send Email'', ''Post to Slack'', ''Save to Database'', ''Send to Webhook'']"
definition seg_error :: "string list" where
  "seg_error = [''Error Trigger'', ''Log Error Details'', ''Alert Admin'']"

definition all_names :: "string list" where
  "all_names = seg_trigger @ [''Validate API Key''] @ seg_validation @ seg_duplicate
     @ [''Calculate Score''] @ seg_branching @ seg_action @ [''Log to Database'']
     @ [''Notify Slack''] @ seg_error"

section \<open>Example graphs\<close>

definition empty_node :: node where
  "empty_node =
     \<lparr>n_id = None, n_name = None, n_type = None, n_typeVersion = None,
      n_position = None, n_parameters = None, n_credentials = None, n_onError = None,
      n_retryOnFail = None, n_continueOnFail = None, n_maxTries = None, n_webhookId = None\<rparr>"

definition empty_workflow :: workflow where
  "empty_workflow =
     \<lparr>w_name = None, w_nodes = None, w_connections = None, w_active = None,
      w_settings = None, w_meta = None, w_other = []\<rparr>"

definition mk_node :: "string \<Rightarrow> string \<Rightarrow> node" where
  "mk_node nm ty =
     \<lparr>n_id = None, n_name = Some nm, n_type = Some ty, n_typeVersion = None,
      n_position = None, n_parameters = None, n_credentials = None, n_onError = None,
      n_retryOnFail = None, n_continueOnFail = None, n_maxTries = None, n_webhookId = None\<rparr>"

definition five_nodes :: workflow where
  "five_nodes =
     \<lparr>w_name = Some ''Five'',
      w_nodes = Some [mk_node ''A'' ''n8n-nodes-base.manualTrigger'',
                      mk_node ''B'' ''n8n-nodes-base.set'',
                      mk_node ''C'' ''n8n-nodes-base.set'',
                      mk_node ''D'' ''n8n-nodes-base.set'',
                      mk_node ''E'' ''n8n-nodes-base.set''],
      w_connections = Some [], w_active = None, w_settings = None, w_meta = None, w_other = []\<rparr>"

definition slack_unbound :: workflow where
  "slack_unbound =
     \<lparr>w_name = Some ''Notify'',
      w_nodes = Some [mk_node ''Start'' ''n8n-nodes-base.manualTrigger'',
                      mk_node ''Post'' ''n8n-nodes-base.slack''],
      w_connections = Some [], w_active = None, w_settings = None, w_meta = None, w_other = []\<rparr>"

definition custom_graph :: WorkflowJSON where
  "custom_graph =
     \<lparr>wf_name = Some ''Custom integration'',
      wf_nodes = Some [\<lparr>wn_id = ''1'', wn_name = ''Start'', wn_type = ''n8n-nodes-base.manualTrigger'',
                   wn_typeVersion = 1, wn_position = [0, 0], wn_parameters = [],
                   wn_credentials = None\<rparr>,
                  \<lparr>wn_id = ''2'', wn_name = ''Call'', wn_type = ''custom.thing'',
                   wn_typeVersion = 1, wn_position = [220, 0], wn_parameters = [],
                   wn_credentials = None\<rparr>],
      wf_connections =
        Some [(''Start'', [(''main'', [[\<lparr>wc_node = ''Call'', wc_type = ''main'', wc_index = 0\<rparr>]])])],
      wf_active = Some False, wf_settings = Some [], wf_meta = None\<rparr>"

definition perplexity_candidate :: workflow where
  "perplexity_candidate =
     empty_workflow\<lparr>w_nodes :=
       Some [empty_node\<lparr>n_name := Some ''Ask'', n_type := Some ''n8n-nodes-base.perplexity'',
                        n_credentials := Some []\<rparr>]\<rparr>"




definition triggers_and_notes :: workflow where
  "triggers_and_notes =
     \<lparr>w_name = Some ''Triggers and notes'',
      w_nodes = Some [mk_node ''Manual'' ''n8n-nodes-base.manualTrigger'',
                      mk_node ''Schedule'' ''n8n-nodes-base.scheduleTrigger'',
                      mk_node ''Note 1'' stickyNote,
                      mk_node ''Note 2'' stickyNote,
                      mk_node ''Note 3'' stickyNote],
      w_connections = Some [], w_active = None, w_settings = None, w_meta = None, w_other = []\<rparr>"



definition basic_requirements :: requirements where
  "basic_requirements =
     \<lparr>r_trigger = Some ''webhook'', r_needs_auth = True, r_needs_validation = True,
      r_needs_duplicate_check = False, r_needs_transformation = False,
      r_needs_scoring = True, r_has_branching = True, r_has_loops = False,
      r_needs_error_handling = True, r_needs_retry_logic = False, r_num_outputs = Some 1,
      r_needs_logging = True, r_needs_notification = True, r_needs_error_alerts = True,
      r_outputs = Some [''slack''], r_database = None, r_webhook_path = None,
      r_schedule_frequency = None\<rparr>"

definition tagged_ids :: "nat \<Rightarrow> string" where
  "tagged_ids k = ''id-'' @ str_nat k"

section \<open>Sequencing of fallible steps\<close>

lemma and_then_simps [simp]:
  "and_then (Inr x) f = f x"
  "and_then (Inl e) f = Inl e"
  by (simp_all add: and_then_def)

section \<open>Types outside the registry\<close>

lemma custom_unknown: "lookup_schema (Some ''custom.thing'') = None"
  by (simp add: lookup_schema_def schemas_def)

text \<open>
  C1, as stated, fails: the type \<open>custom.thing\<close> is not in the registry, and the structural
  validator rejects a graph, otherwise without findings, because of that type.
\<close>

theorem unknown_type_rejected_counterexample:
  "lookup_schema (Some ''custom.thing'') = None
   \<and> validate_workflow custom_graph =
       Inr \<lparr>isValid = False,
            vr_errors = [\<lparr>ve_type = ''node'',
                          ve_message = ''Invalid node type format: custom.thing'',
                          ve_nodeId = Some ''2''\<rparr>],
            vr_warnings = []\<rparr>"
  by code_simp

text \<open>
  C1, amended. A node whose type is not in the registry passes the registry's node
  validation with no error and the one warning that no schema was found. The structural
  validator's finding about the type of such a node is the format error, raised exactly
  when the type does not start with \<open>n8n-nodes-base.\<close>; the only other finding it can
  have is about the position.
\<close>

theorem unknown_type_lenient:
  "(lookup_schema (n_type n) = None \<longrightarrow>
      valid (validate_node n) \<and> errors (validate_node n) = []
      \<and> warnings (validate_node n) =
           [''No schema found for node type: ''
              @ (case n_type n of None \<Rightarrow> ''None'' | Some t \<Rightarrow> t)])
   \<and> (lookup_schema (Some (wn_type m)) = None \<longrightarrow>
        validate_one_node m =
          (if length (wn_position m) \<noteq> 2 then
             [\<lparr>ve_type = ''node'', ve_message = ''Node position must be [x, y]'',
               ve_nodeId = Some (wn_id m)\<rparr>]
           else [])
          @ (if startswith (wn_type m) ''n8n-nodes-base.'' then []
             else [\<lparr>ve_type = ''node'',
                    ve_message = ''Invalid node type format: '' @ wn_type m,
                    ve_nodeId = Some (wn_id m)\<rparr>]))"
  by (simp add: validate_node_def validate_one_node_def REQUIRED_NODE_FIELDS_def
      node_dump_def missing_field_def)


lemma unknown_types_exist:
  "lookup_schema (n_type (mk_node ''Call'' ''n8n-nodes-base.airtable'')) = None"
  "lookup_schema (Some (wn_type \<lparr>wn_id = ''2'', wn_name = ''Call'',
      wn_type = ''n8n-nodes-base.airtable'', wn_typeVersion = 1, wn_position = [220, 0],
      wn_parameters = [], wn_credentials = None\<rparr>)) = None"
  by (simp_all add: lookup_schema_def schemas_def mk_node_def)

theorem unknown_type_lenient_witness:
  "lookup_schema (n_type (mk_node ''Call'' ''n8n-nodes-base.airtable'')) = None
   \<and> valid (validate_node (mk_node ''Call'' ''n8n-nodes-base.airtable''))
   \<and> errors (validate_node (mk_node ''Call'' ''n8n-nodes-base.airtable'')) = []
   \<and> validate_one_node \<lparr>wn_id = ''2'', wn_name = ''Call'',
      wn_type = ''n8n-nodes-base.airtable'', wn_typeVersion = 1, wn_position = [220, 0],
      wn_parameters = [], wn_credentials = None\<rparr> = []"
  using unknown_type_lenient [of "mk_node ''Call'' ''n8n-nodes-base.airtable''"
      "\<lparr>wn_id = ''2'', wn_name = ''Call'',
      wn_type = ''n8n-nodes-base.airtable'', wn_typeVersion = 1, wn_position = [220, 0],
      wn_parameters = [], wn_credentials = None\<rparr>"]
    unknown_types_exist
  by (simp add: startswith_def)

section \<open>Scoring a graph with incomplete nodes\<close>

text \<open>
  C2. The scorer does not return on every graph: \<open>_check_flow_complexity\<close> reads
  \<open>n['type']\<close> and \<open>_check_connections\<close> reads \<open>n['name']\<close>, so a node without a type,
  or without a name, ends \<open>validate\<close> with a \<open>KeyError\<close>, whatever the tier.
\<close>

theorem validate_raises_on_missing_key:
  "validate pct (empty_workflow\<lparr>w_nodes := Some [empty_node\<lparr>n_name := Some ''A''\<rparr>]\<rparr>) c
     = Inl (KeyError ''type'')
   \<and> validate pct
         (empty_workflow\<lparr>w_nodes := Some [empty_node\<lparr>n_type := Some ''n8n-nodes-base.set''\<rparr>]\<rparr>) c
     = Inl (KeyError ''name'')"
  by (simp add: validate_def check_connections_def check_flow_complexity_def get_nodes_def
      empty_workflow_def empty_node_def Let_def get_type_def endswith_def targets_of_def)

section \<open>Repair passes\<close>






































section \<open>Determinism of the Graph Builder\<close>

lemma map_sum_and_then:
  "map_sum id g (and_then m f) = and_then m (\<lambda>x. map_sum id g (f x))"
  by (cases m) (simp_all add: and_then_def)

lemma erase_new_node:
  "erase_ids (new_node i nm ty pos ps) = erase_ids (new_node [] nm ty pos ps)"
  by (simp add: erase_ids_def new_node_def)

lemma erase_name: "n_name (erase_ids n) = n_name n"
  by (simp add: erase_ids_def)

lemma erase_build_eqD:
  assumes "erase_build b' = erase_build b"
  shows "b_connections b' = b_connections b" "b_position b' = b_position b"
    "n_name (b_last_node b') = n_name (b_last_node b)"
    "erase_ids (b_last_node b') = erase_ids (b_last_node b)"
    "map erase_ids (b_nodes b') = map erase_ids (b_nodes b)"
proof -
  from assms have e: "b_connections (erase_build b') = b_connections (erase_build b)"
    "b_position (erase_build b') = b_position (erase_build b)"
    "b_last_node (erase_build b') = b_last_node (erase_build b)"
    "b_nodes (erase_build b') = b_nodes (erase_build b)"
    by simp_all
  from e(1) show "b_connections b' = b_connections b" by (simp add: erase_build_def)
  from e(2) show "b_position b' = b_position b" by (simp add: erase_build_def)
  from e(3) show l: "erase_ids (b_last_node b') = erase_ids (b_last_node b)"
    by (simp add: erase_build_def)
  from l erase_name [of "b_last_node b'"] erase_name [of "b_last_node b"]
  show "n_name (b_last_node b') = n_name (b_last_node b)" by simp
  from e(4) show "map erase_ids (b_nodes b') = map erase_ids (b_nodes b)"
    by (simp add: erase_build_def)
qed

lemma step_trigger_shape:
  "erase_build (step_trigger uuid r) = erase_build (step_trigger uuid' r)"
  by (simp add: step_trigger_def create_trigger_node_def erase_build_def new_node_def erase_ids_def Let_def)

lemma step_auth_shape:
  assumes "erase_build b' = erase_build b"
  shows "same_shape (step_auth uuid r b) (step_auth uuid' r b')"
  using erase_build_eqD [OF assms] assms
  by (simp add: same_shape_def step_auth_def create_auth_node_def map_sum_and_then
      erase_build_def connect_nodes_def need_def erase_ids_def new_node_def)


lemmas shape_simps = same_shape_def map_sum_and_then erase_build_def connect_nodes_def
  need_def erase_ids_def new_node_def attach_flow_def Let_def

lemma step_validation_shape:
  assumes "erase_build b' = erase_build b"
  shows "same_shape (step_validation uuid r b) (step_validation uuid' r b')"
  using erase_build_eqD [OF assms] assms
  by (simp add: step_validation_def create_validation_flow_def shape_simps
      subscript_def dict_set_def has_key_def main_conn_def Let_def)

lemma step_duplicate_check_shape:
  assumes "erase_build b' = erase_build b"
  shows "same_shape (step_duplicate_check uuid r b) (step_duplicate_check uuid' r b')"
  using erase_build_eqD [OF assms] assms
  by (simp add: step_duplicate_check_def create_duplicate_check_flow_def shape_simps
      subscript_def dict_set_def has_key_def main_conn_def Let_def)

lemma step_scoring_shape:
  assumes "erase_build b' = erase_build b"
  shows "same_shape (step_scoring uuid r b) (step_scoring uuid' r b')"
  using erase_build_eqD [OF assms] assms
  by (simp add: step_scoring_def create_scoring_node_def shape_simps)

lemma step_branching_shape:
  assumes "erase_build b' = erase_build b"
  shows "same_shape (step_branching uuid r b) (step_branching uuid' r b')"
  using erase_build_eqD [OF assms] assms
  by (simp add: step_branching_def create_branching_flow_def shape_simps
      subscript_def dict_set_def has_key_def main_conn_def Let_def)

lemma step_action_shape:
  assumes "erase_build b' = erase_build b"
  shows "same_shape (step_action uuid r b) (step_action uuid' r b')"
  using erase_build_eqD [OF assms] assms
  by (simp add: step_action_def create_action_nodes_def shape_simps merge_connections_def)

lemma step_logging_shape:
  assumes "erase_build b' = erase_build b"
  shows "same_shape (step_logging uuid r b) (step_logging uuid' r b')"
  using erase_build_eqD [OF assms] assms
  by (simp add: step_logging_def create_logging_node_def shape_simps)

lemma step_notification_shape:
  assumes "erase_build b' = erase_build b"
  shows "same_shape (step_notification uuid r b) (step_notification uuid' r b')"
  using erase_build_eqD [OF assms] assms
  by (cases "r_outputs r")
     (auto simp: step_notification_def create_notification_nodes_def shape_simps
        merge_connections_def)

lemma step_error_handling_shape:
  assumes "erase_build b' = erase_build b"
  shows "same_shape (step_error_handling uuid r b) (step_error_handling uuid' r b')"
  using erase_build_eqD [OF assms] assms
  by (simp add: step_error_handling_def create_error_workflow_def shape_simps
      subscript_def dict_set_def has_key_def main_conn_def Let_def)


lemma same_shape_bind:
  assumes "same_shape m m'"
    and "\<And>b b'. erase_build b' = erase_build b \<Longrightarrow> P (f b) (f' b')"
    and "\<And>e. P (Inl e) (Inl e)"
  shows "P (and_then m f) (and_then m' f')"
proof (cases m)
  case (Inl e)
  with assms(1) have "m' = Inl e" by (cases m') (simp_all add: same_shape_def)
  with Inl assms(3) show ?thesis by simp
next
  case (Inr b)
  with assms(1) obtain b' where "m' = Inr b'" and "erase_build b' = erase_build b"
    by (cases m') (simp_all add: same_shape_def)
  with Inr assms(2) show ?thesis by simp
qed

lemma final_shape:
  assumes "erase_build b' = erase_build b"
  shows "same_graph
     (and_then (generate_workflow_name r conversation) (\<lambda>workflow_name.
       Inr \<lparr>w_name = Some workflow_name,
            w_nodes = Some (b_nodes b),
            w_connections = Some (b_connections b),
            w_active = Some False,
            w_settings = Some [(''executionOrder'', JStr ''v1'')],
            w_meta = Some [(''generatedBy'', JStr ''n8n-flow-generator''),
                           (''version'', JStr ''2.0''),
                           (''complexity'', JInt (calculate_complexity r)),
                           (''nodeCount'', JInt (int (length (b_nodes b))))],
            w_other = []\<rparr>))
     (and_then (generate_workflow_name r conversation) (\<lambda>workflow_name.
       Inr \<lparr>w_name = Some workflow_name,
            w_nodes = Some (b_nodes b'),
            w_connections = Some (b_connections b'),
            w_active = Some False,
            w_settings = Some [(''executionOrder'', JStr ''v1'')],
            w_meta = Some [(''generatedBy'', JStr ''n8n-flow-generator''),
                           (''version'', JStr ''2.0''),
                           (''complexity'', JInt (calculate_complexity r)),
                           (''nodeCount'', JInt (int (length (b_nodes b'))))],
            w_other = []\<rparr>))"
proof -
  from erase_build_eqD(5) [OF assms]
  have "length (map erase_ids (b_nodes b')) = length (map erase_ids (b_nodes b))" by simp
  then have "length (b_nodes b') = length (b_nodes b)" by simp
  with erase_build_eqD [OF assms] show ?thesis
    by (cases "generate_workflow_name r conversation")
       (simp_all add: same_graph_def without_ids_def map_nodes_def)
qed

text \<open>
  C4, amended. Two runs of the builder on the same requirements record and the same
  conversation end alike, with the same exception or with graphs that are equal once
  the node identifiers and the webhook identifier are removed: same workflow name,
  same nodes with the same names, types, positions, parameters and credentials, same
  connections, same metadata.
\<close>

theorem generate_deterministic_up_to_ids:
  "map_sum id without_ids (generate_from_requirements uuid r conversation)
     = map_sum id without_ids (generate_from_requirements uuid' r conversation)"
proof -
  have e: "\<And>e. same_graph (Inl e) (Inl e)" by (simp add: same_graph_def)
  have "same_graph (generate_from_requirements uuid r conversation)
                   (generate_from_requirements uuid' r conversation)"
    unfolding generate_from_requirements_def
    apply (rule same_shape_bind [OF step_auth_shape [OF step_trigger_shape]])
     apply (rule same_shape_bind [OF step_validation_shape], assumption)
      apply (rule same_shape_bind [OF step_duplicate_check_shape], assumption)
       apply (rule same_shape_bind [OF step_scoring_shape], assumption)
        apply (rule same_shape_bind [OF step_branching_shape], assumption)
         apply (rule same_shape_bind [OF step_action_shape], assumption)
          apply (rule same_shape_bind [OF step_logging_shape], assumption)
           apply (rule same_shape_bind [OF step_notification_shape], assumption)
            apply (rule same_shape_bind [OF step_error_handling_shape], assumption)
             apply (rule final_shape, assumption)
            apply (rule e)+
    done
  then show ?thesis by (simp add: same_graph_def)
qed

text \<open>
  C4, as stated, fails: the identifiers are drawn at random, so two runs on the same
  record, which draw different values, return graphs that differ.
\<close>

theorem generate_ids_differ_counterexample:
  "generate_from_requirements str_nat basic_requirements None
     \<noteq> generate_from_requirements tagged_ids basic_requirements None"
  by code_simp


theorem generate_deterministic_up_to_ids_witness:
  "map_sum id without_ids (generate_from_requirements str_nat basic_requirements None)
     = map_sum id without_ids (generate_from_requirements tagged_ids basic_requirements None)"
  using generate_deterministic_up_to_ids [of str_nat basic_requirements None tagged_ids] .

section \<open>A collaborator that returns nothing\<close>

lemma nothing_step:
  assumes "returns_nothing synth" and "attempt < max_attempts"
  shows "attempts_from pct uuid synth c max_attempts attempt st =
           attempts_from pct uuid synth c max_attempts (Suc attempt)
             (st\<lparr>log := log st @ [Synthesis attempt]\<rparr>)"
proof -
  from assms(1) have "case synth attempt (prompt st) of None \<Rightarrow> True | Some w \<Rightarrow> is_empty_dict w"
    by (simp add: returns_nothing_def)
  with assms(2) show ?thesis
    by (subst attempts_from.simps) (simp add: Let_def split: option.splits)
qed

lemma nothing_loop:
  assumes "returns_nothing synth"
  shows "attempt \<le> max_attempts \<Longrightarrow>
         attempts_from pct uuid synth c max_attempts attempt st =
           Inr (exhausted max_attempts st,
                st\<lparr>log := log st @ map Synthesis [attempt..<max_attempts]\<rparr>)"
proof (induction "max_attempts - attempt" arbitrary: attempt st)
  case 0
  then have "attempt = max_attempts" by simp
  then show ?case by (subst attempts_from.simps) simp
next
  case (Suc d)
  then have lt: "attempt < max_attempts" and d: "d = max_attempts - Suc attempt"
    by simp_all
  from lt have le: "Suc attempt \<le> max_attempts" by simp
  have "[attempt..<max_attempts] = attempt # [Suc attempt..<max_attempts]"
    using lt by (simp add: upt_conv_Cons)
  then show ?case
    using nothing_step [OF assms lt] Suc.hyps(1) [OF d le]
    by (simp add: exhausted_def)
qed

text \<open>
  C5. When the synthesis collaborator returns nothing on every request, \<open>generate\<close>
  makes its three requests and nothing else (no repair, no scoring), and returns a null
  graph with score 0, the count of 3 attempts, and the warning that stands for a
  threshold that was not met.
\<close>

theorem nothing_exhausts_attempts:
  assumes "returns_nothing synth"
  shows "generate pct uuid synth prompt0 complexity =
           Inr (\<lparr>g_workflow = None, g_quality_score = 0, g_quality_details = None,
                 g_attempt = None,
                 g_warning = Some ''Workflow may not meet all quality standards'',
                 g_attempts = Some 3\<rparr>,
                [Synthesis 0, Synthesis 1, Synthesis 2])"
proof -
  have "[0..<3] = [0, 1, 2::nat]" by (simp add: upt_rec)
  then show ?thesis
    using nothing_loop [OF assms, of 0 max_generation_attempts pct uuid complexity
        "initial_state prompt0"]
    by (simp add: generate_def max_generation_attempts_def initial_state_def exhausted_def)
qed

theorem nothing_exhausts_attempts_witness:
  "returns_nothing (\<lambda>a p. None)
   \<and> generate (\<lambda>_. ''0%'') (\<lambda>k. str_nat k) (\<lambda>a p. None) ''Build a workflow'' ''standard'' =
           Inr (\<lparr>g_workflow = None, g_quality_score = 0, g_quality_details = None,
                 g_attempt = None,
                 g_warning = Some ''Workflow may not meet all quality standards'',
                 g_attempts = Some 3\<rparr>,
                [Synthesis 0, Synthesis 1, Synthesis 2])"
proof -
  have h: "returns_nothing (\<lambda>a p. None)" by (simp add: returns_nothing_def)
  from nothing_exhausts_attempts [OF h] h show ?thesis by simp
qed

section \<open>Candidates that all score zero\<close>

text \<open>
  C6. The best candidate is kept only when its score exceeds the initial best score
  of 0. A collaborator that answers every request with a graph of one Perplexity node
  bound to an empty credential bag gets each candidate repaired and scored 0; after
  three attempts \<open>generate\<close> returns no graph at all, not the first of the candidates.
\<close>

theorem zero_score_candidates_dropped:
  "(case validate_and_refine str_nat 0 perplexity_candidate ''standard'' of
      Inl e \<Rightarrow> False
    | Inr (w, k) \<Rightarrow>
        (case validate (\<lambda>_. ''0%'') w ''standard'' of
           Inl e \<Rightarrow> False
         | Inr q \<Rightarrow> q_score q = 0))
   \<and> generate (\<lambda>_. ''0%'') str_nat (\<lambda>a p. Some perplexity_candidate)
         ''Build a workflow'' ''standard''
       = Inr (\<lparr>g_workflow = None, g_quality_score = 0, g_quality_details = None,
               g_attempt = None,
               g_warning = Some ''Workflow may not meet all quality standards'',
               g_attempts = Some 3\<rparr>,
              [Synthesis 0, Repair 0, Scoring 0, Feedback 0,
               Synthesis 1, Repair 1, Scoring 1, Feedback 1,
               Synthesis 2, Repair 2, Scoring 2])"
  by code_simp

section \<open>Node-count sufficiency\<close>

lemma node_count_score_steps:
  "node_count_score k =
     (if k < 10 then 0 else if k < 15 then 5 else if k < 25 then 10
      else if k < 35 then 15 else 20)"
  by (simp add: node_count_score_def)

lemma str_int_5_15: "str_int 5 = ''5''" "str_int 15 = ''15''"
  by (simp_all add: str_int_def str_nat.simps)

lemma fb_node_count_five:
  assumes "length (get_nodes w) = 5"
  shows "fb_node_count (check_node_count w ''simple'') =
           Inr [''CRITICAL: Workflow has only 5 nodes. Add more nodes to reach 15 nodes minimum.'']"
  using assms
  by (simp add: fb_node_count_def check_node_count_def base_result_def min_node_count_def
        need_def str_int_5_15 Let_def)

lemma validate_node_count:
  "validate pct w c = Inr res \<Longrightarrow> d_node_count (q_details res) = check_node_count w c"
  by (auto simp: validate_def Let_def split: sum.splits)

lemma feedback_head:
  assumes "generate_feedback pct res = Inr fb"
    and "fb_node_count (d_node_count (q_details res)) = Inr [m]"
  shows "fb \<noteq> [] \<and> hd fb = m"
  using assms by (auto simp: generate_feedback_def Let_def split: sum.splits)

lemma node_count_score_by_steps:
  "score (check_node_count w c) =
     (if int (length (get_nodes w)) < 10 then 0
      else if int (length (get_nodes w)) < 15 then 5
      else if int (length (get_nodes w)) < 25 then 10
      else if int (length (get_nodes w)) < 35 then 15
      else 20)"
  by (simp add: check_node_count_def base_result_def Let_def node_count_score_steps)

lemma five_nodes_at_simple:
  assumes "length (get_nodes w) = 5"
  shows "score (check_node_count w ''simple'') = 0"
    and "required_count (check_node_count w ''simple'') = Some 15"
  using assms
  by (simp_all add: check_node_count_def base_result_def Let_def node_count_score_def
      min_node_count_def)

lemma feedback_states_minimum:
  assumes five: "length (get_nodes w) = 5"
    and v: "validate pct w ''simple'' = Inr res"
    and g: "generate_feedback pct res = Inr fb"
  shows "fb \<noteq> [] \<and> hd fb =
           ''CRITICAL: Workflow has only 5 nodes. Add more nodes to reach 15 nodes minimum.''"
proof -
  from v validate_node_count
  have "d_node_count (q_details res) = check_node_count w ''simple''"
    by blast
  with fb_node_count_five [OF five] g feedback_head show ?thesis by metis
qed

lemma five_nodes_feedback:
  "case validate (\<lambda>_. ''0%'') five_nodes ''simple'' of
     Inl e \<Rightarrow> False
   | Inr res \<Rightarrow>
       (case generate_feedback (\<lambda>_. ''0%'') res of
          Inl e \<Rightarrow> False
        | Inr fb \<Rightarrow>
            hd fb =
              ''CRITICAL: Workflow has only 5 nodes. Add more nodes to reach 15 nodes minimum.'')"
  by code_simp

text \<open>
  C7. The node-count check scores by the step function of the number of nodes
  (\<open>node_count_score_by_steps\<close>), and a graph of 5 nodes at the tier \<open>simple\<close> scores 0
  against a minimum of 15. The feedback does not always state that minimum: on the graph
  \<open>triggers_and_notes\<close>, two triggers and three sticky notes, scoring returns and
  \<open>generate_feedback\<close> ends with \<open>KeyError('percentage')\<close>. With no processable node
  \<open>_check_error_handling\<close> returns early, not passed and without the key \<open>percentage\<close>
  that the feedback on a check that is not passed reads.
\<close>

theorem feedback_raises_without_processable_nodes:
  "length (get_nodes triggers_and_notes) = 5
   \<and> score (check_node_count triggers_and_notes ''simple'') = 0
   \<and> required_count (check_node_count triggers_and_notes ''simple'') = Some 15
   \<and> map_sum id (generate_feedback pct) (validate pct triggers_and_notes ''simple'')
       = Inr (Inl (KeyError ''percentage''))"
  by code_simp

section \<open>Credential completeness\<close>

lemma credentials_score_mono: "p \<le> q \<Longrightarrow> credentials_score p \<le> credentials_score q"
  by (simp add: credentials_score_def)

lemma registry_credential_kind:
  "requires_credentials_of t \<Longrightarrow> \<exists>ct. get_credential_type t = Some ct \<and> ct \<noteq> []"
  by (auto simp: requires_credentials_of_def get_credential_type_def schemas_def mk_schema_def
      split: if_splits)

lemma filter_update_length:
  "i < length xs \<Longrightarrow>
     int (length (filter P (xs[i := y]))) =
       int (length (filter P xs)) + (if P y then 1 else 0) - (if P (xs ! i) then 1 else 0)"
proof (induction xs arbitrary: i)
  case Nil
  then show ?case by simp
next
  case (Cons x xs)
  show ?case
  proof (cases i)
    case 0
    then show ?thesis by simp
  next
    case (Suc j)
    with Cons.prems have "j < length xs" by simp
    from Cons.IH [OF this] Suc show ?thesis by (auto split: if_splits)
  qed
qed

lemma bind_credential_type: "get_type (bind_credential k r n) = get_type n"
  by (simp add: bind_credential_def get_type_def)

lemma bind_credential_proper:
  "get_credential_type (get_type n) = Some ct \<Longrightarrow> ct \<noteq> [] \<Longrightarrow>
     has_proper_credentials (bind_credential ct r n)"
  by (simp add: has_proper_credentials_def bind_credential_def get_type_def has_key_def)

text \<open>
  C8. In a workflow whose node \<open>i\<close> requires credentials and is not yet counted as bound,
  binding the credential kind that the registry gives for its type, every other node left
  as it is, does not lower the credential-completeness score.
\<close>

theorem credential_binding_monotone:
  assumes nodes: "w_nodes w = Some ns"
    and i: "i < length ns"
    and req: "requires_credentials_of (get_type (ns ! i))"
    and unbound: "\<not> has_proper_credentials (ns ! i)"
    and kind: "get_credential_type (get_type (ns ! i)) = Some ct"
  shows "score (check_credentials w)
           \<le> score (check_credentials (w\<lparr>w_nodes := Some (ns[i := bind_credential ct ref (ns ! i)])\<rparr>))"
proof -
  define n' where "n' = bind_credential ct ref (ns ! i)"
  define S where "S = (\<lambda>n. requires_credentials_of (get_type n))"
  define Q where "Q = (\<lambda>n. S n \<and> has_proper_credentials n)"
  from registry_credential_kind [OF req] kind have ct: "ct \<noteq> []" by auto
  have Sn': "S n'" using req by (simp add: S_def n'_def bind_credential_type)
  have Qn': "Q n'" using Sn' bind_credential_proper [OF kind ct] by (simp add: Q_def n'_def)
  have Sn: "S (ns ! i)" using req by (simp add: S_def)
  have nQ: "\<not> Q (ns ! i)" using unbound by (simp add: Q_def)
  have total: "int (length (filter S (ns[i := n']))) = int (length (filter S ns))"
    using filter_update_length [OF i, of S n'] Sn Sn' by simp
  have more: "int (length (filter Q (ns[i := n']))) = int (length (filter Q ns)) + 1"
    using filter_update_length [OF i, of Q n'] Qn' nQ by simp
  have pos: "filter S ns \<noteq> []"
    using i Sn by (metis filter_empty_conv nth_mem)
  have pos': "filter S (ns[i := n']) \<noteq> []"
    using total pos by (metis length_0_conv of_nat_eq_iff)
  let ?t = "int (length (filter S ns))"
  let ?k = "int (length (filter Q ns))"
  have tpos: "0 < ?t" using pos by simp
  have le: "(of_int ?k :: rat) / of_int ?t \<le> of_int (?k + 1) / of_int ?t"
    using tpos by (simp add: divide_right_mono)
  have before: "score (check_credentials w) = credentials_score (of_int ?k / of_int ?t)"
    using pos nodes
    by (simp add: check_credentials_def get_nodes_def base_result_def Let_def Q_def S_def [symmetric])
  have after: "score (check_credentials (w\<lparr>w_nodes := Some (ns[i := n'])\<rparr>))
                 = credentials_score (of_int (?k + 1) / of_int ?t)"
    using pos' total more
    by (simp add: check_credentials_def get_nodes_def base_result_def Let_def Q_def S_def [symmetric])
  show ?thesis
    unfolding n'_def [symmetric] before after by (rule credentials_score_mono [OF le])
qed

lemma slack_unbound_facts:
  "w_nodes slack_unbound = Some [mk_node ''Start'' ''n8n-nodes-base.manualTrigger'',
                      mk_node ''Post'' ''n8n-nodes-base.slack'']"
  "requires_credentials_of (get_type (mk_node ''Post'' ''n8n-nodes-base.slack''))"
  "\<not> has_proper_credentials (mk_node ''Post'' ''n8n-nodes-base.slack'')"
  "get_credential_type (get_type (mk_node ''Post'' ''n8n-nodes-base.slack'')) = Some ''slackApi''"
  by (simp_all add: slack_unbound_def mk_node_def get_type_def requires_credentials_of_def
      has_proper_credentials_def get_credential_type_def schemas_def mk_schema_def)

theorem credential_binding_monotone_witness:
  "w_nodes slack_unbound = Some [mk_node ''Start'' ''n8n-nodes-base.manualTrigger'',
                                 mk_node ''Post'' ''n8n-nodes-base.slack'']
   \<and> requires_credentials_of (get_type (mk_node ''Post'' ''n8n-nodes-base.slack''))
   \<and> \<not> has_proper_credentials (mk_node ''Post'' ''n8n-nodes-base.slack'')
   \<and> get_credential_type (get_type (mk_node ''Post'' ''n8n-nodes-base.slack'')) = Some ''slackApi''
   \<and> score (check_credentials slack_unbound)
        \<le> score (check_credentials (slack_unbound\<lparr>w_nodes :=
             Some ([mk_node ''Start'' ''n8n-nodes-base.manualTrigger'',
                    mk_node ''Post'' ''n8n-nodes-base.slack'']
                   [1 := bind_credential ''slackApi'' (JObj [(''id'', JStr ''7'')])
                           (mk_node ''Post'' ''n8n-nodes-base.slack'')])\<rparr>))"
  using credential_binding_monotone
      [of slack_unbound "[mk_node ''Start'' ''n8n-nodes-base.manualTrigger'',
                          mk_node ''Post'' ''n8n-nodes-base.slack'']" 1 "''slackApi''"
          "JObj [(''id'', JStr ''7'')]"]
    slack_unbound_facts
  by simp

lemma slack_unbound_scores:
  "score (check_credentials slack_unbound) = 0"
  "score (check_credentials (slack_unbound\<lparr>w_nodes :=
        Some ([mk_node ''Start'' ''n8n-nodes-base.manualTrigger'',
               mk_node ''Post'' ''n8n-nodes-base.slack'']
              [1 := bind_credential ''slackApi'' (JObj [(''id'', JStr ''7'')])
                      (mk_node ''Post'' ''n8n-nodes-base.slack'')])\<rparr>)) = 15"
  by code_simp+

section \<open>What structural validation reports\<close>

lemma subscript_has_key: "has_key k d \<Longrightarrow> \<exists>v. subscript d k = Inr v"
  by (auto simp: has_key_def subscript_def)



















section \<open>Invariants of generated graphs\<close>

lemma and_then_InrD:
  "and_then m f = Inr y \<Longrightarrow> \<exists>x. m = Inr x \<and> f x = Inr y"
  by (cases m) simp_all

lemma refers_to_alt:
  "refers_to names cs = (\<forall>(src, data) \<in> set cs. Some src \<in> names \<and> data_ok names data)"
  by (simp add: refers_to_def data_ok_def outs_ok_def)

lemma refers_to_mono: "refers_to names cs \<Longrightarrow> names \<subseteq> names' \<Longrightarrow> refers_to names' cs"
  unfolding refers_to_def by fast

lemma dict_set_cases:
  "x \<in> set (dict_set k v d) \<Longrightarrow> x \<in> set d \<or> x = (k, v)"
  by (auto simp: dict_set_def split: if_splits)

lemma refers_to_dict_set:
  "refers_to names cs \<Longrightarrow> Some k \<in> names \<Longrightarrow> data_ok names data \<Longrightarrow>
     refers_to names (dict_set k data cs)"
  unfolding refers_to_alt using dict_set_cases by fastforce

lemma data_ok_dict_set:
  "data_ok names d \<Longrightarrow> outs_ok names outs \<Longrightarrow> data_ok names (dict_set k outs d)"
  unfolding data_ok_def using dict_set_cases by fastforce

lemma subscript_in: "subscript d k = Inr v \<Longrightarrow> (k, v) \<in> set d"
  by (auto simp: subscript_def split: option.splits dest: map_of_SomeD)

lemma outs_ok_fill:
  assumes "outs_ok names outs" and "Some t \<in> names"
  shows "outs_ok names
           ((outs @ replicate n [])[i := (outs @ replicate n []) ! i @ [main_conn t]])"
proof -
  let ?p = "outs @ replicate n []"
  have p: "outs_ok names ?p" using assms(1) by (simp add: outs_ok_def)
  show ?thesis
  proof (cases "i < length ?p")
    case False
    then have "?p[i := ?p ! i @ [main_conn t]] = ?p" by (simp add: list_update_beyond)
    with p show ?thesis by simp
  next
    case True
    have "set (?p[i := ?p ! i @ [main_conn t]]) \<subseteq> insert (?p ! i @ [main_conn t]) (set ?p)"
      by (rule set_update_subset_insert)
    moreover have "?p ! i \<in> set ?p" using True by (rule nth_mem)
    ultimately show ?thesis
      using p assms(2) unfolding outs_ok_def
      by (fastforce simp: main_conn_def)
  qed
qed

lemma connect_nodes_refers:
  assumes "connect_nodes cs f t i = Inr cs'"
    and "refers_to names cs" and "n_name f \<in> names" and "n_name t \<in> names"
  shows "refers_to names cs'"
proof -
  from assms(1) obtain fn where fn: "n_name f = Some fn"
    by (cases "n_name f") (simp_all add: connect_nodes_def need_def)
  from assms(1) fn obtain tn where tn: "n_name t = Some tn"
    by (cases "n_name t") (simp_all add: connect_nodes_def need_def)
  define cs1 where "cs1 = (if has_key fn cs then cs else dict_set fn [(''main'', [[]])] cs)"
  have ok1: "refers_to names cs1"
    using assms(2,3) fn
    by (auto simp: cs1_def data_ok_def outs_ok_def intro!: refers_to_dict_set)
  from assms(1) fn tn obtain data where data: "subscript cs1 fn = Inr data"
    by (cases "subscript cs1 fn") (simp_all add: connect_nodes_def need_def Let_def cs1_def)
  from assms(1) fn tn data obtain outs where outs: "subscript data ''main'' = Inr outs"
    by (cases "subscript data ''main''")
       (simp_all add: connect_nodes_def need_def Let_def cs1_def)
  from subscript_in [OF data] ok1 have dok: "data_ok names data"
    unfolding refers_to_alt by fast
  from subscript_in [OF outs] dok have ook: "outs_ok names outs"
    unfolding data_ok_def by fast
  have res: "cs' = dict_set fn (dict_set ''main''
      ((outs @ replicate (Suc i - length outs) [])
         [i := (outs @ replicate (Suc i - length outs) []) ! i @ [main_conn tn]]) data) cs1"
    using assms(1) fn tn data outs
    by (simp add: connect_nodes_def need_def Let_def cs1_def)
  show ?thesis
    unfolding res
    using ok1 dok ook assms(3,4) fn tn
    by (intro refers_to_dict_set data_ok_dict_set outs_ok_fill) simp_all
qed

lemma merge_outputs_ok:
  "outs_ok names ts \<Longrightarrow> outs_ok names ss \<Longrightarrow> outs_ok names (merge_outputs ts ss)"
  by (induction ts ss rule: merge_outputs.induct) (auto simp: outs_ok_def)

lemma merge_conn_data_ok:
  "data_ok names t \<Longrightarrow> data_ok names s \<Longrightarrow> data_ok names (merge_conn_data t s)"
  unfolding merge_conn_data_def
proof (induction s arbitrary: t)
  case Nil
  then show ?case by simp
next
  case (Cons x s)
  obtain ct cl where x: "x = (ct, cl)" by (cases x)
  from Cons.prems(2) x have cl: "outs_ok names cl" and s: "data_ok names s"
    by (simp_all add: data_ok_def)
  have "data_ok names (case map_of t ct of None \<Rightarrow> dict_set ct cl t
          | Some existing \<Rightarrow> dict_set ct (merge_outputs existing cl) t)"
  proof (cases "map_of t ct")
    case None
    then show ?thesis using Cons.prems(1) cl by (simp add: data_ok_dict_set)
  next
    case (Some existing)
    then have "(ct, existing) \<in> set t" by (rule map_of_SomeD)
    with Cons.prems(1) have "outs_ok names existing" unfolding data_ok_def by fast
    with Some Cons.prems(1) cl show ?thesis
      by (simp add: data_ok_dict_set merge_outputs_ok)
  qed
  from Cons.IH [OF this s] x show ?case by simp
qed

lemma merge_connections_refers:
  "refers_to names t \<Longrightarrow> refers_to names s \<Longrightarrow> refers_to names (merge_connections t s)"
  unfolding merge_connections_def
proof (induction s arbitrary: t)
  case Nil
  then show ?case by simp
next
  case (Cons x s)
  obtain nm data where x: "x = (nm, data)" by (cases x)
  from Cons.prems(2) x have nm: "Some nm \<in> names" and data: "data_ok names data"
    and s: "refers_to names s"
    by (simp_all add: refers_to_alt)
  have "refers_to names (case map_of t nm of None \<Rightarrow> dict_set nm data t
          | Some existing \<Rightarrow> dict_set nm (merge_conn_data existing data) t)"
  proof (cases "map_of t nm")
    case None
    then show ?thesis using Cons.prems(1) nm data by (simp add: refers_to_dict_set)
  next
    case (Some existing)
    then have "(nm, existing) \<in> set t" by (rule map_of_SomeD)
    with Cons.prems(1) have "data_ok names existing" unfolding refers_to_alt by fast
    with Some Cons.prems(1) nm data show ?thesis
      by (simp add: refers_to_dict_set merge_conn_data_ok)
  qed
  from Cons.IH [OF this s] x show ?case by simp
qed


lemma build_inv_skip: "build_inv allowed b \<Longrightarrow> build_inv (allowed @ seg) b"
  by (simp add: build_inv_def subseq_rev_drop_many)

lemma build_inv_attach:
  assumes inv: "build_inv allowed b"
    and att: "attach_flow b ns cs pos nl k = Inr b'"
    and names: "subseq (map n_name ns) (map Some seg)"
    and conns: "refers_to (set (map n_name ns)) cs"
    and last: "case nl of None \<Rightarrow> True | Some n \<Rightarrow> n_name n \<in> set (map n_name ns)"
  shows "build_inv (allowed @ seg) b'"
proof -
  let ?N = "set (map n_name (b_nodes b @ ns))"
  from att obtain first rest where ns: "ns = first # rest"
    by (cases ns) (simp_all add: attach_flow_def)
  from att ns obtain cs' where
    c: "connect_nodes (merge_connections (b_connections b) cs) (b_last_node b) first 0 = Inr cs'"
    and b': "b' = \<lparr>b_nodes = b_nodes b @ ns, b_connections = cs', b_position = pos,
                   b_last_node = (case nl of None \<Rightarrow> b_last_node b | Some n \<Rightarrow> n),
                   b_drawn = k\<rparr>"
    by (auto simp: attach_flow_def dest!: and_then_InrD)
  from inv have "refers_to ?N (b_connections b)"
    by (auto simp: build_inv_def intro: refers_to_mono)
  moreover from conns have "refers_to ?N cs" by (auto intro: refers_to_mono)
  ultimately have "refers_to ?N (merge_connections (b_connections b) cs)"
    by (rule merge_connections_refers)
  moreover from inv have "n_name (b_last_node b) \<in> ?N" by (auto simp: build_inv_def)
  moreover have "n_name first \<in> ?N" by (simp add: ns)
  ultimately have r: "refers_to ?N cs'" by (rule connect_nodes_refers [OF c])
  from inv names have s: "subseq (map n_name (b_nodes b @ ns)) (map Some (allowed @ seg))"
    by (simp add: build_inv_def list_emb_append_mono)
  from inv last have l: "n_name (case nl of None \<Rightarrow> b_last_node b | Some n \<Rightarrow> n) \<in> ?N"
    by (cases nl) (auto simp: build_inv_def)
  from r s l show ?thesis by (simp add: build_inv_def b')
qed

lemma build_inv_append:
  assumes inv: "build_inv allowed b"
    and c: "connect_nodes (b_connections b) (b_last_node b) n 0 = Inr cs'"
    and nm: "n_name n \<in> Some ` set seg"
  shows "build_inv (allowed @ seg)
           \<lparr>b_nodes = b_nodes b @ [n], b_connections = cs', b_position = pos,
            b_last_node = n, b_drawn = k\<rparr>"
proof -
  let ?N = "set (map n_name (b_nodes b @ [n]))"
  from inv have "refers_to ?N (b_connections b)"
    by (auto simp: build_inv_def intro: refers_to_mono)
  moreover from inv have "n_name (b_last_node b) \<in> ?N" by (auto simp: build_inv_def)
  moreover have "n_name n \<in> ?N" by simp
  ultimately have r: "refers_to ?N cs'" by (rule connect_nodes_refers [OF c])
  from nm have "subseq [n_name n] (map Some seg)" by (auto simp: subseq_singleton_left)
  with inv have s: "subseq (map n_name (b_nodes b @ [n])) (map Some (allowed @ seg))"
    by (simp add: build_inv_def list_emb_append_mono)
  from r s show ?thesis by (simp add: build_inv_def)
qed


lemmas builder_defs = new_node_def connect_nodes_def need_def subscript_def
  dict_set_def has_key_def Let_def main_conn_def

lemma step_trigger_inv: "build_inv seg_trigger (step_trigger uuid r)"
  by (simp add: step_trigger_def create_trigger_node_def build_inv_def refers_to_def
      seg_trigger_def new_node_def Let_def)

lemma step_auth_inv:
  assumes "build_inv allowed b" and "step_auth uuid r b = Inr b'"
  shows "build_inv (allowed @ [''Validate API Key'']) b'"
proof (cases "r_needs_auth r")
  case False
  with assms build_inv_skip show ?thesis by (simp add: step_auth_def)
next
  case True
  with assms(2) obtain cs' where
    "connect_nodes (b_connections b) (b_last_node b)
        (fst (create_auth_node uuid (b_drawn b) (b_position b))) 0 = Inr cs'"
    and "b' = \<lparr>b_nodes = b_nodes b @ [fst (create_auth_node uuid (b_drawn b) (b_position b))],
               b_connections = cs',
               b_position = fst (snd (create_auth_node uuid (b_drawn b) (b_position b))),
               b_last_node = fst (create_auth_node uuid (b_drawn b) (b_position b)),
               b_drawn = snd (snd (create_auth_node uuid (b_drawn b) (b_position b)))\<rparr>"
    by (auto simp: step_auth_def split_beta dest!: and_then_InrD)
  moreover have "n_name (fst (create_auth_node uuid (b_drawn b) (b_position b)))
                   \<in> Some ` set [''Validate API Key'']"
    by (simp add: create_auth_node_def new_node_def)
  ultimately show ?thesis using build_inv_append [OF assms(1)] by simp
qed

lemma step_scoring_inv:
  assumes "build_inv allowed b" and "step_scoring uuid r b = Inr b'"
  shows "build_inv (allowed @ [''Calculate Score'']) b'"
proof (cases "r_needs_scoring r")
  case False
  with assms build_inv_skip show ?thesis by (simp add: step_scoring_def)
next
  case True
  with assms(2) obtain cs' where
    "connect_nodes (b_connections b) (b_last_node b)
        (fst (create_scoring_node uuid (b_drawn b) (b_position b))) 0 = Inr cs'"
    and "b' = \<lparr>b_nodes = b_nodes b @ [fst (create_scoring_node uuid (b_drawn b) (b_position b))],
               b_connections = cs',
               b_position = fst (snd (create_scoring_node uuid (b_drawn b) (b_position b))),
               b_last_node = fst (create_scoring_node uuid (b_drawn b) (b_position b)),
               b_drawn = snd (snd (create_scoring_node uuid (b_drawn b) (b_position b)))\<rparr>"
    by (auto simp: step_scoring_def split_beta dest!: and_then_InrD)
  moreover have "n_name (fst (create_scoring_node uuid (b_drawn b) (b_position b)))
                   \<in> Some ` set [''Calculate Score'']"
    by (simp add: create_scoring_node_def new_node_def)
  ultimately show ?thesis using build_inv_append [OF assms(1)] by simp
qed

lemma step_logging_inv:
  assumes "build_inv allowed b" and "step_logging uuid r b = Inr b'"
  shows "build_inv (allowed @ [''Log to Database'']) b'"
proof (cases "r_needs_logging r \<or> calculate_complexity r > 5")
  case False
  with assms build_inv_skip show ?thesis by (simp add: step_logging_def)
next
  case True
  with assms(2) obtain cs' where
    "connect_nodes (b_connections b) (b_last_node b)
        (fst (create_logging_node uuid (b_drawn b) r (b_position b))) 0 = Inr cs'"
    and "b' = \<lparr>b_nodes = b_nodes b @ [fst (create_logging_node uuid (b_drawn b) r (b_position b))],
               b_connections = cs',
               b_position = fst (snd (create_logging_node uuid (b_drawn b) r (b_position b))),
               b_last_node = fst (create_logging_node uuid (b_drawn b) r (b_position b)),
               b_drawn = snd (snd (create_logging_node uuid (b_drawn b) r (b_position b)))\<rparr>"
    by (auto simp: step_logging_def split_beta dest!: and_then_InrD)
  moreover have "n_name (fst (create_logging_node uuid (b_drawn b) r (b_position b)))
                   \<in> Some ` set [''Log to Database'']"
    by (simp add: create_logging_node_def new_node_def Let_def)
  ultimately show ?thesis using build_inv_append [OF assms(1)] by simp
qed

lemma step_action_inv:
  assumes "build_inv allowed b" and "step_action uuid r b = Inr b'"
  shows "build_inv (allowed @ seg_action) b'"
proof -
  let ?c = "create_action_nodes uuid (b_drawn b) r (b_position b)"
  have conns: "fst (snd ?c) = []" by (simp add: create_action_nodes_def Let_def)
  from assms(2) obtain cs' where
    "connect_nodes (b_connections b) (b_last_node b) (fst ?c) 0 = Inr cs'"
    and "b' = \<lparr>b_nodes = b_nodes b @ [fst ?c], b_connections = cs',
               b_position = fst (snd (snd ?c)), b_last_node = fst ?c,
               b_drawn = snd (snd (snd ?c))\<rparr>"
    using conns
    by (auto simp: step_action_def split_beta merge_connections_def dest!: and_then_InrD)
  moreover have "n_name (fst ?c) \<in> Some ` set seg_action"
    by (simp add: create_action_nodes_def new_node_def Let_def seg_action_def)
  ultimately show ?thesis using build_inv_append [OF assms(1)] by simp
qed


lemma validation_flow_facts:
  "\<exists>ns cs pos s e k'. create_validation_flow uuid k p = Inr (ns, cs, pos, s, e, k')
      \<and> map n_name ns = map Some seg_validation
      \<and> refers_to (set (map n_name ns)) cs
      \<and> n_name s \<in> set (map n_name ns)"
  by (simp add: create_validation_flow_def builder_defs refers_to_def seg_validation_def)

lemma duplicate_flow_facts:
  "\<exists>ns cs pos s k'. create_duplicate_check_flow uuid k r p = Inr (ns, cs, pos, s, k')
      \<and> map n_name ns = map Some seg_duplicate
      \<and> refers_to (set (map n_name ns)) cs
      \<and> n_name s \<in> set (map n_name ns)"
  by (simp add: create_duplicate_check_flow_def builder_defs refers_to_def seg_duplicate_def)

lemma branching_flow_facts:
  "\<exists>ns cs pos s k'. create_branching_flow uuid k r p = Inr (ns, cs, pos, s, k')
      \<and> map n_name ns = map Some seg_branching
      \<and> refers_to (set (map n_name ns)) cs
      \<and> n_name s \<in> set (map n_name ns)"
  by (simp add: create_branching_flow_def builder_defs refers_to_def seg_branching_def)

lemma error_workflow_facts:
  "\<exists>ns cs k'. create_error_workflow uuid k r = Inr (ns, cs, k')
      \<and> subseq (map n_name ns) (map Some seg_error)
      \<and> refers_to (set (map n_name ns)) cs"
  by (simp add: create_error_workflow_def builder_defs refers_to_def seg_error_def)

lemma notification_facts:
  "create_notification_nodes uuid k r p = Inr (ns, cs, pos, k') \<Longrightarrow>
     subseq (map n_name ns) (map Some [''Notify Slack'']) \<and> refers_to (set (map n_name ns)) cs"
  by (auto simp: create_notification_nodes_def new_node_def refers_to_def Let_def
      split: if_splits)

lemma step_validation_inv:
  assumes "build_inv allowed b" and "step_validation uuid r b = Inr b'"
  shows "build_inv (allowed @ seg_validation) b'"
proof (cases "r_needs_validation r")
  case False
  with assms build_inv_skip show ?thesis by (simp add: step_validation_def)
next
  case True
  from validation_flow_facts [of uuid "b_drawn b" "b_position b"]
  obtain ns cs pos s e k' where
    f: "create_validation_flow uuid (b_drawn b) (b_position b) = Inr (ns, cs, pos, s, e, k')"
    and n: "map n_name ns = map Some seg_validation"
    and c: "refers_to (set (map n_name ns)) cs"
    and l: "n_name s \<in> set (map n_name ns)"
    by blast
  from assms(2) True f have "attach_flow b ns cs pos (Some s) k' = Inr b'"
    by (simp add: step_validation_def)
  from build_inv_attach [OF assms(1) this, of seg_validation] n c l
  show ?thesis by simp
qed

lemma step_duplicate_check_inv:
  assumes "build_inv allowed b" and "step_duplicate_check uuid r b = Inr b'"
  shows "build_inv (allowed @ seg_duplicate) b'"
proof (cases "r_needs_duplicate_check r")
  case False
  with assms build_inv_skip show ?thesis by (simp add: step_duplicate_check_def)
next
  case True
  from duplicate_flow_facts [of uuid "b_drawn b" r "b_position b"]
  obtain ns cs pos s k' where
    f: "create_duplicate_check_flow uuid (b_drawn b) r (b_position b) = Inr (ns, cs, pos, s, k')"
    and n: "map n_name ns = map Some seg_duplicate"
    and c: "refers_to (set (map n_name ns)) cs"
    and l: "n_name s \<in> set (map n_name ns)"
    by blast
  from assms(2) True f have "attach_flow b ns cs pos (Some s) k' = Inr b'"
    by (simp add: step_duplicate_check_def)
  from build_inv_attach [OF assms(1) this, of seg_duplicate] n c l
  show ?thesis by simp
qed

lemma step_branching_inv:
  assumes "build_inv allowed b" and "step_branching uuid r b = Inr b'"
  shows "build_inv (allowed @ seg_branching) b'"
proof (cases "r_has_branching r \<or> calculate_complexity r > 6")
  case False
  with assms build_inv_skip show ?thesis by (simp add: step_branching_def)
next
  case True
  from branching_flow_facts [of uuid "b_drawn b" r "b_position b"]
  obtain ns cs pos s k' where
    f: "create_branching_flow uuid (b_drawn b) r (b_position b) = Inr (ns, cs, pos, s, k')"
    and n: "map n_name ns = map Some seg_branching"
    and c: "refers_to (set (map n_name ns)) cs"
    and l: "n_name s \<in> set (map n_name ns)"
    by blast
  from assms(2) True f have "attach_flow b ns cs pos (Some s) k' = Inr b'"
    by (simp add: step_branching_def)
  from build_inv_attach [OF assms(1) this, of seg_branching] n c l
  show ?thesis by simp
qed

lemma step_notification_inv:
  assumes "build_inv allowed b" and "step_notification uuid r b = Inr b'"
  shows "build_inv (allowed @ [''Notify Slack'']) b'"
proof (cases "r_needs_notification r")
  case False
  with assms build_inv_skip show ?thesis by (simp add: step_notification_def)
next
  case True
  with assms(2) obtain ns cs pos k' where
    f: "create_notification_nodes uuid (b_drawn b) r (b_position b) = Inr (ns, cs, pos, k')"
    and a: "attach_flow b ns cs pos None k' = Inr b'"
    by (auto simp: step_notification_def dest!: and_then_InrD)
  from build_inv_attach [OF assms(1) a, of "[''Notify Slack'']"] notification_facts [OF f]
  show ?thesis by simp
qed

lemma step_error_handling_inv:
  assumes "build_inv allowed b" and "step_error_handling uuid r b = Inr b'"
  shows "build_inv (allowed @ seg_error) b'"
proof (cases "r_needs_error_handling r")
  case False
  with assms build_inv_skip show ?thesis by (simp add: step_error_handling_def)
next
  case True
  from error_workflow_facts [of uuid "b_drawn b" r]
  obtain ns cs k' where
    f: "create_error_workflow uuid (b_drawn b) r = Inr (ns, cs, k')"
    and n: "subseq (map n_name ns) (map Some seg_error)"
    and c: "refers_to (set (map n_name ns)) cs"
    by blast
  let ?N = "set (map n_name (b_nodes b @ ns))"
  from assms(2) True f
  have b': "b' = b\<lparr>b_nodes := b_nodes b @ ns,
                    b_connections := merge_connections (b_connections b) cs,
                    b_drawn := k'\<rparr>"
    by (simp add: step_error_handling_def)
  from assms(1) have "refers_to ?N (b_connections b)"
    by (auto simp: build_inv_def intro: refers_to_mono)
  moreover from c have "refers_to ?N cs" by (auto intro: refers_to_mono)
  ultimately have "refers_to ?N (merge_connections (b_connections b) cs)"
    by (rule merge_connections_refers)
  moreover from assms(1) n
  have "subseq (map n_name (b_nodes b @ ns)) (map Some (allowed @ seg_error))"
    by (simp add: build_inv_def list_emb_append_mono)
  moreover from assms(1) have "n_name (b_last_node b) \<in> ?N" by (auto simp: build_inv_def)
  ultimately show ?thesis by (simp add: build_inv_def b')
qed

lemma distinct_all_names: "distinct all_names"
  by (simp add: all_names_def seg_trigger_def seg_validation_def seg_duplicate_def
      seg_branching_def seg_action_def seg_error_def)

lemma subseq_distinct: "subseq xs ys \<Longrightarrow> distinct ys \<Longrightarrow> distinct xs"
  using subseqs_distinctD [of xs ys] by (simp add: set_subseqs_eq)

lemma build_inv_graph:
  assumes "build_inv all_names b"
  shows "graph_invariants \<lparr>w_name = nm, w_nodes = Some (b_nodes b),
            w_connections = Some (b_connections b), w_active = a, w_settings = st,
            w_meta = m, w_other = ot\<rparr>"
proof -
  from assms have s: "subseq (map n_name (b_nodes b)) (map Some all_names)"
    and r: "refers_to (set (map n_name (b_nodes b))) (b_connections b)"
    by (simp_all add: build_inv_def)
  have "distinct (map Some all_names)"
    using distinct_all_names by (simp add: distinct_map)
  with s have d: "distinct (map n_name (b_nodes b))" by (rule subseq_distinct)
  from s have "set (map n_name (b_nodes b)) \<subseteq> set (map Some all_names)"
    using list_emb_set [of "(=)" "map n_name (b_nodes b)" "map Some all_names"] by blast
  then have "None \<notin> set (map n_name (b_nodes b))" by auto
  with d r show ?thesis by (simp add: graph_invariants_def get_nodes_def)
qed

text \<open>
  C10. Every graph that the builder returns satisfies the invariants of the data model:
  all nodes are named, the names are pairwise distinct, and every source and every
  target of a connection is the name of a node of the graph.
\<close>

theorem generated_graph_invariants:
  assumes "generate_from_requirements uuid r conversation = Inr w"
  shows "graph_invariants w"
proof -
  from assms obtain b2 b3 b4 b5 b6 b7 b8 b9 b10 nm where
    s2: "step_auth uuid r (step_trigger uuid r) = Inr b2"
    and s3: "step_validation uuid r b2 = Inr b3"
    and s4: "step_duplicate_check uuid r b3 = Inr b4"
    and s5: "step_scoring uuid r b4 = Inr b5"
    and s6: "step_branching uuid r b5 = Inr b6"
    and s7: "step_action uuid r b6 = Inr b7"
    and s8: "step_logging uuid r b7 = Inr b8"
    and s9: "step_notification uuid r b8 = Inr b9"
    and s10: "step_error_handling uuid r b9 = Inr b10"
    and w: "w = \<lparr>w_name = Some nm, w_nodes = Some (b_nodes b10),
            w_connections = Some (b_connections b10), w_active = Some False,
            w_settings = Some [(''executionOrder'', JStr ''v1'')],
            w_meta = Some [(''generatedBy'', JStr ''n8n-flow-generator''),
                           (''version'', JStr ''2.0''),
                           (''complexity'', JInt (calculate_complexity r)),
                           (''nodeCount'', JInt (int (length (b_nodes b10))))],
            w_other = []\<rparr>"
    unfolding generate_from_requirements_def
    by (auto dest!: and_then_InrD)
  note i1 = step_trigger_inv [of uuid r]
  note i2 = step_auth_inv [OF i1 s2]
  note i3 = step_validation_inv [OF i2 s3]
  note i4 = step_duplicate_check_inv [OF i3 s4]
  note i5 = step_scoring_inv [OF i4 s5]
  note i6 = step_branching_inv [OF i5 s6]
  note i7 = step_action_inv [OF i6 s7]
  note i8 = step_logging_inv [OF i7 s8]
  note i9 = step_notification_inv [OF i8 s9]
  note i10 = step_error_handling_inv [OF i9 s10]
  from i10 have "build_inv all_names b10" by (simp add: all_names_def)
  from build_inv_graph [OF this] show ?thesis unfolding w .
qed


lemma basic_requirements_returns:
  "\<exists>w. generate_from_requirements str_nat basic_requirements None = Inr w
       \<and> length (get_nodes w) = 17"
proof -
  have "case generate_from_requirements str_nat basic_requirements None of
          Inl e \<Rightarrow> False | Inr w \<Rightarrow> length (get_nodes w) = 17"
    by code_simp
  then show ?thesis by (auto split: sum.splits)
qed

theorem generated_graph_invariants_witness:
  "\<exists>w. generate_from_requirements str_nat basic_requirements None = Inr w
       \<and> length (get_nodes w) = 17 \<and> graph_invariants w"
  using generated_graph_invariants [of str_nat basic_requirements None]
    basic_requirements_returns
  by blast

end
